theory Spec2Isabelle
  imports Complex_Main "HOL-Library.Word"
begin

section \<open>JavaScript values\<close>

text \<open>
  The handlers read their inputs from \<open>req.body\<close>, which \<open>express.json()\<close> and
  \<open>express.urlencoded({extended: true})\<close> fill with plain data: null, booleans, numbers,
  strings, arrays and objects; a field that is absent reads as \<open>undefined\<close>.

  A JavaScript number is a double: NaN, the two infinities, or a finite value. A finite
  value is kept here as the rational it denotes; the rounding of a decimal literal to the
  nearest double is left out, except that a literal whose magnitude rounds to an infinity
  becomes one. Strings are lists of code units below 256.
\<close>

datatype jsnum = NaN | PosInf | NegInf | Fin rat

datatype jsval =
    JUndefined
  | JNull
  | JBool bool
  | JNum jsnum
  | JStr string
  | JArr "jsval list"
  | JObj "(string \<times> jsval) list"

datatype jserror = JsError (name: string) (message: string) (code: "string option")

definition TypeError :: "string \<Rightarrow> jserror" where
  "TypeError m = JsError ''TypeError'' m None"

text \<open>\<open>!v\<close> is \<open>\<not> truthy v\<close>.\<close>

fun truthy :: "jsval \<Rightarrow> bool" where
  "truthy JUndefined = False"
| "truthy JNull = False"
| "truthy (JBool b) = b"
| "truthy (JNum n) = (n \<noteq> NaN \<and> n \<noteq> Fin 0)"
| "truthy (JStr s) = (s \<noteq> [])"
| "truthy (JArr xs) = True"
| "truthy (JObj fs) = True"

definition isNaN :: "jsnum \<Rightarrow> bool" where
  "isNaN n = (n = NaN)"

fun is_string :: "jsval \<Rightarrow> bool" where
  "is_string (JStr s) = True"
| "is_string v = False"

text \<open>Reading a property of a plain object, whose keys are distinct: \<open>undefined\<close> when the
  key is absent.\<close>

definition get_prop :: "(string \<times> jsval) list \<Rightarrow> string \<Rightarrow> jsval" where
  "get_prop fs k = (case map_of fs k of None \<Rightarrow> JUndefined | Some v \<Rightarrow> v)"

subsection \<open>Strings: white space, \<open>trim\<close>, \<open>split\<close>\<close>

text \<open>White space and line terminators among the code units below 256:
  TAB, LF, VT, FF, CR, SP and NBSP.\<close>

definition is_space :: "char \<Rightarrow> bool" where
  "is_space c = ((of_char c :: nat) \<in> {9, 10, 11, 12, 13, 32, 160})"

definition trim :: "string \<Rightarrow> string" where
  "trim s = rev (dropWhile is_space (rev (dropWhile is_space s)))"

text \<open>\<open>s.split(sep)\<close> for a one-character separator: always at least one piece.\<close>

fun split :: "char \<Rightarrow> string \<Rightarrow> string list" where
  "split sep [] = [[]]"
| "split sep (c # cs) =
     (if c = sep then [] # split sep cs
      else (case split sep cs of
              [] \<Rightarrow> [[c]]
            | p # ps \<Rightarrow> (c # p) # ps))"

subsection \<open>\<open>Number(v)\<close>\<close>

definition is_digit :: "char \<Rightarrow> bool" where
  "is_digit c = (48 \<le> (of_char c :: nat) \<and> (of_char c :: nat) \<le> 57)"

text \<open>The value of a digit of a literal in base up to 16; \<open>None\<close> for any other character.\<close>

definition digit_value :: "char \<Rightarrow> nat option" where
  "digit_value c =
     (let n = (of_char c :: nat) in
      if 48 \<le> n \<and> n \<le> 57 then Some (n - 48)
      else if 97 \<le> n \<and> n \<le> 102 then Some (n - 87)
      else if 65 \<le> n \<and> n \<le> 70 then Some (n - 55)
      else None)"

definition is_digit_of :: "nat \<Rightarrow> char \<Rightarrow> bool" where
  "is_digit_of base c = (case digit_value c of None \<Rightarrow> False | Some d \<Rightarrow> d < base)"

definition digits_value :: "nat \<Rightarrow> string \<Rightarrow> nat" where
  "digits_value base ds = foldl (\<lambda>a c. base * a + (case digit_value c of None \<Rightarrow> 0 | Some d \<Rightarrow> d)) 0 ds"

text \<open>Rounding to a double, as far as it changes the kind of number: a magnitude of at
  least \<open>2^1024 - 2^970\<close> rounds to an infinity.\<close>

definition to_double :: "rat \<Rightarrow> jsnum" where
  "to_double q =
     (if 2 ^ 1024 - 2 ^ 970 \<le> \<bar>q\<bar> then (if q < 0 then NegInf else PosInf) else Fin q)"

text \<open>\<open>ExponentPart\<close>, optional: \<open>e\<close> or \<open>E\<close>, an optional sign, one or more digits.\<close>

definition signed_integer :: "string \<Rightarrow> int option" where
  "signed_integer s =
     (case s of
        [] \<Rightarrow> None
      | c # ds \<Rightarrow>
          if c = CHR ''+'' \<or> c = CHR ''-'' then
            (if ds \<noteq> [] \<and> list_all is_digit ds
             then Some ((if c = CHR ''-'' then - 1 else 1) * int (digits_value 10 ds))
             else None)
          else if list_all is_digit s then Some (int (digits_value 10 s))
          else None)"

definition exponent_part :: "string \<Rightarrow> int option" where
  "exponent_part s =
     (case s of
        [] \<Rightarrow> Some 0
      | c # r \<Rightarrow> if c = CHR ''e'' \<or> c = CHR ''E'' then signed_integer r else None)"

definition scale10 :: "rat \<Rightarrow> int \<Rightarrow> rat" where
  "scale10 m e = (if 0 \<le> e then m * 10 ^ nat e else m / 10 ^ nat (- e))"

text \<open>\<open>StrUnsignedDecimalLiteral\<close>: \<open>Infinity\<close>, or digits with an optional fraction and
  exponent, with at least one digit before or after the point.\<close>

definition unsigned_decimal :: "string \<Rightarrow> jsnum" where
  "unsigned_decimal s =
     (if s = ''Infinity'' then PosInf
      else
        let ip = takeWhile is_digit s; r = dropWhile is_digit s;
            dotted = (r \<noteq> [] \<and> hd r = CHR ''.'');
            fp = (if dotted then takeWhile is_digit (tl r) else []);
            ex = (if dotted then dropWhile is_digit (tl r) else r)
        in if ip = [] \<and> fp = [] then NaN
           else (case exponent_part ex of
                   None \<Rightarrow> NaN
                 | Some e \<Rightarrow>
                     to_double (scale10 (of_nat (digits_value 10 ip)
                        + of_nat (digits_value 10 fp) / 10 ^ length fp) e)))"

definition negate :: "jsnum \<Rightarrow> jsnum" where
  "negate n = (case n of NaN \<Rightarrow> NaN | PosInf \<Rightarrow> NegInf | NegInf \<Rightarrow> PosInf | Fin q \<Rightarrow> Fin (- q))"

text \<open>\<open>NonDecimalIntegerLiteral\<close>: \<open>0x\<close>, \<open>0o\<close> or \<open>0b\<close> (either case) and one or more
  digits of that base; no sign.\<close>

definition non_decimal :: "string \<Rightarrow> jsnum option" where
  "non_decimal s =
     (case s of
        z # x # ds \<Rightarrow>
          (let base = (if x = CHR ''x'' \<or> x = CHR ''X'' then 16
                       else if x = CHR ''o'' \<or> x = CHR ''O'' then 8
                       else if x = CHR ''b'' \<or> x = CHR ''B'' then 2 else (0::nat))
           in if z = CHR ''0'' \<and> base \<noteq> 0 then
                (if ds \<noteq> [] \<and> list_all (is_digit_of base) ds
                 then Some (to_double (of_nat (digits_value base ds))) else Some NaN)
              else None)
      | _ \<Rightarrow> None)"

text \<open>\<open>StringToNumber\<close>: the trimmed text is empty (zero), a non-decimal integer, or an
  optionally signed decimal; anything else is NaN.\<close>

definition StringToNumber :: "string \<Rightarrow> jsnum" where
  "StringToNumber s =
     (let t = trim s in
      case t of
        [] \<Rightarrow> Fin 0
      | c # r \<Rightarrow>
          (case non_decimal t of
             Some n \<Rightarrow> n
           | None \<Rightarrow>
               if c = CHR ''+'' then unsigned_decimal r
               else if c = CHR ''-'' then negate (unsigned_decimal r)
               else unsigned_decimal t))"

text \<open>
  Converting an object to a primitive calls its \<open>valueOf\<close> and \<open>toString\<close>. Plain data
  holds no functions: an object with an own key \<open>toString\<close> has nothing callable there, the
  inherited \<open>valueOf\<close> returns the object itself, and the conversion throws a TypeError.
  Any other plain object is \<open>[object Object]\<close>; an array is the join of its elements (null
  and undefined as the empty text) with commas, so it throws when an element does.
\<close>

fun to_string_throws :: "jsval \<Rightarrow> bool" where
  "to_string_throws (JArr xs) = (\<exists>x \<in> set xs. to_string_throws x)"
| "to_string_throws (JObj fs) = (''toString'' \<in> set (map fst fs))"
| "to_string_throws v = False"

text \<open>
  The number of an array that converts: the number of its join. No element gives the empty
  text; two or more give a text with a comma, which is no numeric literal; one element
  gives that element's text, and the text of a number reads back as the same number.
\<close>

fun array_number :: "jsval list \<Rightarrow> jsnum" where
  "array_number [] = Fin 0"
| "array_number [JUndefined] = Fin 0"
| "array_number [JNull] = Fin 0"
| "array_number [JBool b] = NaN"
| "array_number [JNum n] = n"
| "array_number [JStr s] = StringToNumber s"
| "array_number [JArr ys] = array_number ys"
| "array_number [JObj fs] = NaN"
| "array_number (x # y # zs) = NaN"

fun Number :: "jsval \<Rightarrow> jserror + jsnum" where
  "Number JUndefined = Inr NaN"
| "Number JNull = Inr (Fin 0)"
| "Number (JBool b) = Inr (Fin (if b then 1 else 0))"
| "Number (JNum n) = Inr n"
| "Number (JStr s) = Inr (StringToNumber s)"
| "Number (JArr xs) =
     (if to_string_throws (JArr xs)
      then Inl (TypeError ''Cannot convert object to primitive value'')
      else Inr (array_number xs))"
| "Number (JObj fs) =
     (if to_string_throws (JObj fs)
      then Inl (TypeError ''Cannot convert object to primitive value'')
      else Inr NaN)"

section \<open>Configuration\<close>

text \<open>
  \<open>CONFIG\<close> and the two environment variables the handlers read besides it. A variable
  that is not set is \<open>None\<close>; \<open>x || d\<close> takes the default also for the empty text.
\<close>

record environment =
  env_PORT :: "string option"
  env_GITHUB_ENABLED :: "string option"
  env_GITHUB_TOKEN :: "string option"
  env_REPORTS_WEBHOOK :: "string option"
  env_ACTIONS_WEBHOOK :: "string option"
  env_RENDER_EXTERNAL_URL :: "string option"
  env_LOGIN_HASHES :: "string option"

definition or_default :: "string option \<Rightarrow> string \<Rightarrow> string" where
  "or_default v d = (case v of None \<Rightarrow> d | Some s \<Rightarrow> if s = [] then d else s)"

definition PORT :: "environment \<Rightarrow> string" where
  "PORT e = or_default (env_PORT e) ''3000''"

definition GITHUB_ENABLED :: "environment \<Rightarrow> bool" where
  "GITHUB_ENABLED e = (or_default (env_GITHUB_ENABLED e) ''false'' = ''true'')"

definition GITHUB_TOKEN :: "environment \<Rightarrow> string" where
  "GITHUB_TOKEN e = or_default (env_GITHUB_TOKEN e) []"

definition REPORTS_WEBHOOK :: "environment \<Rightarrow> string" where
  "REPORTS_WEBHOOK e = or_default (env_REPORTS_WEBHOOK e) []"

definition ACTIONS_WEBHOOK :: "environment \<Rightarrow> string" where
  "ACTIONS_WEBHOOK e = or_default (env_ACTIONS_WEBHOOK e) []"

text \<open>\<open>octokit\<close> is a client when the integration is enabled and a token is set, else null.\<close>

definition octokit :: "environment \<Rightarrow> bool" where
  "octokit e = (GITHUB_ENABLED e \<and> GITHUB_TOKEN e \<noteq> [])"

section \<open>The report store\<close>

text \<open>
  A report is an object; the two arrays hold references to report objects. \<open>heap\<close> lists
  the objects created so far, a reference is an index into it, and \<open>reports\<close> and
  \<open>actionedReports\<close> are the arrays of references. The fields \<open>id\<close> and \<open>context\<close> are
  written \<open>id'\<close> and \<open>context'\<close>. A time is the text that
  \<open>new Date().toISOString()\<close> returned.
\<close>

record report =
  id' :: string
  target :: jsnum
  reporter :: jsnum
  context' :: string
  reason :: string
  timestamp :: string
  ip :: string
  status :: string
  actionedAt :: "string option"

record store =
  heap :: "report list"
  reports :: "nat list"
  actionedReports :: "nat list"

definition empty_store :: store where
  "empty_store = \<lparr>heap = [], reports = [], actionedReports = []\<rparr>"

subsection \<open>\<open>generateReportId\<close>\<close>

text \<open>\<open>crypto.randomBytes(n)\<close> reads \<open>n\<close> bytes of the system's entropy, here a sequence
  of bytes given to the request.\<close>

definition randomBytes :: "(nat \<Rightarrow> 8 word) \<Rightarrow> nat \<Rightarrow> 8 word list" where
  "randomBytes src n = map src [0..<n]"

definition hex_chars :: string where
  "hex_chars = ''0123456789abcdef''"

definition hex_digit :: "nat \<Rightarrow> char" where
  "hex_digit n = hex_chars ! n"

text \<open>\<open>buf.toString('hex')\<close>: two digits for each byte, the high one first.\<close>

definition toString_hex :: "8 word list \<Rightarrow> string" where
  "toString_hex bs = concat (map (\<lambda>b. [hex_digit (unat b div 16), hex_digit (unat b mod 16)]) bs)"

definition generateReportId :: "(nat \<Rightarrow> 8 word) \<Rightarrow> string" where
  "generateReportId src = toString_hex (randomBytes src 8)"

subsection \<open>Array operations\<close>

text \<open>\<open>xs.findIndex(p)\<close>: the first index whose element satisfies \<open>p\<close>; \<open>None\<close> is -1.\<close>

fun findIndex :: "('a \<Rightarrow> bool) \<Rightarrow> 'a list \<Rightarrow> nat option" where
  "findIndex p [] = None"
| "findIndex p (x # xs) =
     (if p x then Some 0 else (case findIndex p xs of None \<Rightarrow> None | Some i \<Rightarrow> Some (Suc i)))"

text \<open>\<open>xs.splice(i, 1)\<close>, for the array that is left.\<close>

definition splice1 :: "nat \<Rightarrow> 'a list \<Rightarrow> 'a list" where
  "splice1 i xs = take i xs @ drop (Suc i) xs"

section \<open>Background work\<close>

text \<open>
  What an awaited call comes to: it returns, it throws, or it never settles. The errors
  thrown are Error objects.
\<close>

datatype 'a promise = Fulfilled 'a | Rejected jserror | Unsettled

text \<open>A template literal, as its literal chunks and the values substituted between them.\<close>

datatype piece = Lit string | Val jsval

type_synonym template = "piece list"

text \<open>A line of the console: the arguments of one \<open>console.log\<close>, \<open>warn\<close> or \<open>error\<close>.\<close>

datatype logarg = S string | E jserror

type_synonym logline = "logarg list"

subsection \<open>\<open>FireWebhook\<close>\<close>

record http_response =
  ok :: bool
  response_text :: "string promise"

text \<open>The network as one call of \<open>FireWebhook\<close> meets it: the dynamic import of
  \<open>node-fetch\<close> and the answer to the POST of a content to a URL.\<close>

record network =
  import_node_fetch :: "unit promise"
  fetch :: "string \<Rightarrow> template \<Rightarrow> http_response promise"

definition webhook_catch :: "jserror \<Rightarrow> logline list" where
  "webhook_catch error =
     [[S ''[WEBHOOK] Critical error in sendDiscordWebhook:''],
      [S ''[WEBHOOK] Error name:'', S (name error)],
      [S ''[WEBHOOK] Error message:'', S (message error)],
      [S ''[WEBHOOK] Error stack:'', E error]]
     @ (if code error = Some ''ENOTFOUND''
        then [[S ''[WEBHOOK] Network error - DNS resolution failed'']]
        else if code error = Some ''ECONNREFUSED''
        then [[S ''[WEBHOOK] Connection refused by Discord'']]
        else if code error = Some ''ETIMEDOUT''
        then [[S ''[WEBHOOK] Request timed out'']]
        else [])"

definition FireWebhook :: "network \<Rightarrow> template \<Rightarrow> string \<Rightarrow> logline list \<times> unit promise" where
  "FireWebhook nw Content URL =
     (case import_node_fetch nw of
        Unsettled \<Rightarrow> ([], Unsettled)
      | Rejected error \<Rightarrow> (webhook_catch error, Fulfilled ())
      | Fulfilled u \<Rightarrow>
          (case fetch nw URL Content of
             Unsettled \<Rightarrow> ([], Unsettled)
           | Rejected error \<Rightarrow> (webhook_catch error, Fulfilled ())
           | Fulfilled response \<Rightarrow>
               if \<not> ok response then
                 (case response_text response of
                    Unsettled \<Rightarrow> ([], Unsettled)
                  | Rejected error \<Rightarrow> (webhook_catch error, Fulfilled ())
                  | Fulfilled errorText \<Rightarrow>
                      ([[S ''[WEBHOOK] Discord API returned error:''],
                        [S ''[WEBHOOK] Error response:'', S errorText]], Fulfilled ()))
               else ([], Fulfilled ())))"

subsection \<open>\<open>addToGitHubBanList\<close>\<close>

text \<open>
  The answer of \<open>getContent\<close>: the text that decoding \<open>response.data.content\<close> gives
  (decoding throws when there is no content) and \<open>response.data.sha\<close>.
\<close>

record gh_response =
  content_decoded :: "jserror + string"
  sha :: string

text \<open>The arguments of \<open>createOrUpdateFileContents\<close>; the content is the document, before
  \<open>JSON.stringify\<close> and the base64 encoding.\<close>

record commit =
  commit_message :: template
  commit_content :: jsval
  commit_sha :: "string option"

text \<open>The external store as one call of \<open>addToGitHubBanList\<close> meets it, with
  \<open>JSON.parse\<close> and the two readings of the clock.\<close>

record github =
  getContent :: "gh_response promise"
  JSON_parse :: "string \<Rightarrow> jserror + jsval"
  date_added_now :: string
  last_updated_now :: string
  createOrUpdateFileContents :: "commit \<Rightarrow> unit promise"

text \<open>\<open>v.k\<close> for a key that no prototype defines: a TypeError on null and undefined.\<close>

definition read_member :: "jsval \<Rightarrow> string \<Rightarrow> jserror + jsval" where
  "read_member v k =
     (case v of
        JUndefined \<Rightarrow> Inl (TypeError ''Cannot read properties of undefined'')
      | JNull \<Rightarrow> Inl (TypeError ''Cannot read properties of null'')
      | JObj fs \<Rightarrow> Inr (get_prop fs k)
      | _ \<Rightarrow> Inr JUndefined)"

text \<open>\<open>v.push(x)\<close>: only an array has a \<open>push\<close> to call.\<close>

definition push :: "jsval \<Rightarrow> jsval \<Rightarrow> jserror + jsval" where
  "push v x =
     (case v of
        JArr xs \<Rightarrow> Inr (JArr (xs @ [x]))
      | _ \<Rightarrow> Inl (TypeError ''bannedUsers.push is not a function''))"

text \<open>The inner \<open>try\<close>: \<open>currentSha\<close> and \<open>bannedUsers\<close> as it leaves them, and what it
  logged; \<open>None\<close> when \<open>getContent\<close> never settles.\<close>

definition get_current_file :: "github \<Rightarrow> (string option \<times> jsval \<times> logline list) option" where
  "get_current_file g =
     (case getContent g of
        Unsettled \<Rightarrow> None
      | Rejected error \<Rightarrow> Some (None, JArr [], [[S ''File not found, creating...'']])
      | Fulfilled response \<Rightarrow>
          (case content_decoded response of
             Inl error \<Rightarrow> Some (None, JArr [], [[S ''File not found, creating...'']])
           | Inr currentFile \<Rightarrow>
               (case JSON_parse g currentFile of
                  Inl error \<Rightarrow>
                    Some (Some (sha response), JArr [], [[S ''File not found, creating...'']])
                | Inr doc \<Rightarrow>
                    (case read_member doc ''banned_users'' of
                       Inl error \<Rightarrow>
                         Some (Some (sha response), JArr [], [[S ''File not found, creating...'']])
                     | Inr v \<Rightarrow>
                         Some (Some (sha response), if truthy v then v else JArr [], [])))))"

definition newBanEntry :: "github \<Rightarrow> report \<Rightarrow> jsval" where
  "newBanEntry g reportData =
     JObj [(''target_id'', JNum (target reportData)),
           (''reporter_id'', JNum (reporter reportData)),
           (''reason'', JStr (reason reportData)),
           (''context'', JStr (context' reportData)),
           (''date_added'', JStr (date_added_now g)),
           (''report_id'', JStr (id' reportData))]"

definition addToGitHubBanList ::
  "environment \<Rightarrow> github \<Rightarrow> report \<Rightarrow> logline list \<times> unit promise" where
  "addToGitHubBanList e g reportData =
     (if \<not> GITHUB_ENABLED e \<or> \<not> octokit e then ([[S ''GitHub integration disabled.'']], Fulfilled ())
      else
        (case get_current_file g of
           None \<Rightarrow> ([], Unsettled)
         | Some (currentSha, bannedUsers, logged) \<Rightarrow>
             (case push bannedUsers (newBanEntry g reportData) of
                Inl error \<Rightarrow> (logged @ [[S ''GitHub integration error:'', E error]], Fulfilled ())
              | Inr bannedUsers' \<Rightarrow>
                  (case createOrUpdateFileContents g
                          \<lparr>commit_message =
                             [Lit ''Add banned user '', Val (JNum (target reportData)),
                              Lit '' - Report '', Val (JStr (id' reportData))],
                           commit_content =
                             JObj [(''banned_users'', bannedUsers'),
                                   (''last_updated'', JStr (last_updated_now g))],
                           commit_sha = currentSha\<rparr> of
                     Unsettled \<Rightarrow> (logged, Unsettled)
                   | Rejected error \<Rightarrow>
                       (logged @ [[S ''GitHub integration error:'', E error]], Fulfilled ())
                   | Fulfilled u \<Rightarrow> (logged, Fulfilled ())))))"

section \<open>The handlers\<close>

text \<open>
  The body of a response, and what a handler comes to: a response sent with its status,
  an exception that leaves the handler, or no response because the handler waits for a
  call that never settles.
\<close>

datatype body =
    Error string
  | Submitted (body_message: string) (report_id: string)
  | Actioned string

datatype reply = Sent nat body | Raised jserror | NoReply

text \<open>What one request meets: the entropy and the clock it reads, and the network and the
  external store that the background work it starts will meet.\<close>

record world =
  entropy :: "nat \<Rightarrow> 8 word"
  now :: string
  net :: network
  gh :: github

text \<open>
  What a handler did: its reply, the store it leaves, the calls of \<open>FireWebhook\<close> it made
  (content and URL, none awaited), the reports it called \<open>addToGitHubBanList\<close> with (each
  awaited), and the console lines of that background work. The console lines of the
  handlers themselves are left out.
\<close>

record outcome =
  reply :: reply
  after :: store
  fired :: "(template \<times> string) list"
  synced :: "nat list"
  console :: "logline list"

definition nl :: string where
  "nl = [CHR 0x0A]"

subsection \<open>\<open>POST /report\<close>\<close>

text \<open>\<open>typeof v === 'number' ? v : Number(v)\<close>\<close>

definition as_number :: "jsval \<Rightarrow> jserror + jsnum" where
  "as_number v = (case v of JNum n \<Rightarrow> Inr n | _ \<Rightarrow> Number v)"

text \<open>\<open>v.trim()\<close>: only a string has a \<open>trim\<close> to call.\<close>

definition call_trim :: "jsval \<Rightarrow> jserror + string" where
  "call_trim v =
     (case v of
        JStr s \<Rightarrow> Inr (trim s)
      | JUndefined \<Rightarrow> Inl (TypeError ''Cannot read properties of undefined'')
      | JNull \<Rightarrow> Inl (TypeError ''Cannot read properties of null'')
      | _ \<Rightarrow> Inl (TypeError ''reason.trim is not a function''))"

definition new_report_text :: "environment \<Rightarrow> nat \<Rightarrow> template" where
  "new_report_text e n =
     [Lit (''**New Report**'' @ nl @ nl @ ''Total pending reports: **''),
      Val (JNum (Fin (of_nat n))),
      Lit (''**'' @ nl @ nl @ ''Check reports at: ''),
      Lit (case env_RENDER_EXTERNAL_URL e of
             None \<Rightarrow> ''http://localhost:'' @ PORT e
           | Some u \<Rightarrow> if u = [] then ''http://localhost:'' @ PORT e else u),
      Lit ''/reports'']"

definition unchanged :: "store \<Rightarrow> reply \<Rightarrow> outcome" where
  "unchanged s r = \<lparr>reply = r, after = s, fired = [], synced = [], console = []\<rparr>"

definition post_report ::
  "environment \<Rightarrow> world \<Rightarrow> string \<Rightarrow> (string \<times> jsval) list \<Rightarrow> store \<Rightarrow> outcome" where
  "post_report e w req_ip req_body s =
     (let target = get_prop req_body ''target'';
          reporter = get_prop req_body ''reporter'';
          context = get_prop req_body ''context'';
          reason = get_prop req_body ''reason''
      in
      if target = JUndefined \<or> target = JNull \<or> reporter = JUndefined \<or> reporter = JNull
         \<or> \<not> truthy context
      then unchanged s (Sent 400 (Error ''Missing required fields: target, reporter, context, reason''))
      else
        (case as_number target of
           Inl error \<Rightarrow> unchanged s (Raised error)
         | Inr targetNum \<Rightarrow>
        (case as_number reporter of
           Inl error \<Rightarrow> unchanged s (Raised error)
         | Inr reporterNum \<Rightarrow>
        if isNaN targetNum \<or> isNaN reporterNum \<or> \<not> is_string context
        then unchanged s (Sent 400 (Error
          ''Invalid field types: target and reporter must be valid numbers, context must be string''))
        else
          (case call_trim context of
             Inl error \<Rightarrow> unchanged s (Raised error)
           | Inr context_trimmed \<Rightarrow>
          (case call_trim reason of
             Inl error \<Rightarrow> unchanged s (Raised error)
           | Inr reason_trimmed \<Rightarrow>
             let report =
                   \<lparr>id' = generateReportId (entropy w),
                    target = targetNum,
                    reporter = reporterNum,
                    context' = context_trimmed,
                    reason = reason_trimmed,
                    timestamp = now w,
                    ip = req_ip,
                    status = ''pending'',
                    actionedAt = None\<rparr>;
                 s' = s\<lparr>heap := heap s @ [report], reports := reports s @ [length (heap s)]\<rparr>;
                 Content = new_report_text e (length (reports s'))
             in \<lparr>reply = Sent 201 (Submitted
                     (''Report '' @ id' report @ '' submitted successfully!'') (id' report)),
                 after = s',
                 fired = [(Content, REPORTS_WEBHOOK e)],
                 synced = [],
                 console = fst (FireWebhook (net w) Content (REPORTS_WEBHOOK e))\<rparr>)))))"

subsection \<open>\<open>POST /api/action\<close>\<close>

text \<open>\<open>xs.includes(v)\<close> for an array of strings: only an equal string is included.\<close>

definition array_includes :: "string list \<Rightarrow> jsval \<Rightarrow> bool" where
  "array_includes xs v = (case v of JStr a \<Rightarrow> a \<in> set xs | _ \<Rightarrow> False)"

text \<open>The text of a value that is a string.\<close>

definition string_of :: "jsval \<Rightarrow> string" where
  "string_of v = (case v of JStr a \<Rightarrow> a | _ \<Rightarrow> [])"

text \<open>
  The two contents, each as its branch writes it. \<open>r\<close> is the report that
  \<open>actionedReports.slice(-1)[0]\<close> reads; a report has no property \<open>body\<close>, so \<open>BodyText\<close>
  is undefined.
\<close>

definition approved_text :: "report \<Rightarrow> template" where
  "approved_text r =
     (let Target = JNum (target r); Reporter = JNum (reporter r); BodyText = JUndefined in
      [Lit (''**Approved**'' @ nl @ nl @ ''**Body Text: **\"`''), Val BodyText,
       Lit (''`\"'' @ nl @ nl @ ''**`Target  : `**[''), Val Target,
       Lit ''](<https://rugplay.com/user/'', Val Target,
       Lit (''>)'' @ nl @ ''**`Reporter: `**[''), Val Reporter,
       Lit ''](<https://rugplay.com/user/'', Val Reporter, Lit ''>)''])"

definition else_text :: "report \<Rightarrow> template" where
  "else_text r =
     (let Target = JNum (target r); Reporter = JNum (reporter r); BodyText = JUndefined in
      [Lit (''**Approved**'' @ nl @ nl @ ''**Body Text: **\"`''), Val BodyText,
       Lit (''`\"'' @ nl @ nl @ ''**`Target  : `**[''), Val Target,
       Lit ''](<https://rugplay.com/user/'', Val Target,
       Lit (''>)'' @ nl @ ''**`Reporter: `**[''), Val Reporter,
       Lit ''](<https://rugplay.com/user/'', Val Reporter, Lit ''>)''])"

definition post_api_action ::
  "environment \<Rightarrow> world \<Rightarrow> (string \<times> jsval) list \<Rightarrow> store \<Rightarrow> outcome" where
  "post_api_action e w req_body s =
     (let reportId = get_prop req_body ''reportId'';
          action = get_prop req_body ''action''
      in
      if \<not> truthy reportId \<or> \<not> truthy action \<or> \<not> array_includes [''approved'', ''denied''] action
      then unchanged s (Sent 400 (Error ''Invalid action or report ID!''))
      else
        (case findIndex (\<lambda>r. JStr (id' (heap s ! r)) = reportId) (reports s) of
           None \<Rightarrow> unchanged s (Sent 404 (Error ''Report not found!''))
         | Some reportIndex \<Rightarrow>
             let report = reports s ! reportIndex;
                 heap1 = (heap s)[report := (heap s ! report)
                            \<lparr>status := string_of action, actionedAt := Some (now w)\<rparr>];
                 s' = \<lparr>heap = heap1,
                       reports = splice1 reportIndex (reports s),
                       actionedReports = actionedReports s @ [report]\<rparr>;
                 newest = heap1 ! last (actionedReports s @ [report]);
                 sent = Sent 200 (Actioned (''Report '' @ string_of action @ '' successfull!''))
             in
             if action = JStr ''approved'' then
               (let Content = approved_text newest;
                    webhook = FireWebhook (net w) Content (ACTIONS_WEBHOOK e);
                    sync = addToGitHubBanList e (gh w) (heap1 ! report)
                in \<lparr>reply = (case snd sync of
                                 Fulfilled u \<Rightarrow> sent
                               | Rejected error \<Rightarrow> Raised error
                               | Unsettled \<Rightarrow> NoReply),
                     after = s',
                     fired = [(Content, ACTIONS_WEBHOOK e)],
                     synced = [report],
                     console = fst webhook @ fst sync\<rparr>)
             else
               (let Content = else_text newest
                in \<lparr>reply = sent,
                     after = s',
                     fired = [(Content, ACTIONS_WEBHOOK e)],
                     synced = [],
                     console = fst (FireWebhook (net w) Content (ACTIONS_WEBHOOK e))\<rparr>)))"

subsection \<open>Sequences of requests\<close>

datatype request =
    Report world string "(string \<times> jsval) list"
  | Action world "(string \<times> jsval) list"

fun handle :: "environment \<Rightarrow> request \<Rightarrow> store \<Rightarrow> outcome" where
  "handle e (Report w req_ip req_body) s = post_report e w req_ip req_body s"
| "handle e (Action w req_body) s = post_api_action e w req_body s"

fun run :: "environment \<Rightarrow> request list \<Rightarrow> store \<Rightarrow> store" where
  "run e [] s = s"
| "run e (q # qs) s = run e qs (after (handle e q s))"

text \<open>\<open>GET /api/reports\<close>: the two arrays as they are, each reference read.\<close>

definition get_api_reports :: "store \<Rightarrow> report list \<times> report list" where
  "get_api_reports s = (map ((!) (heap s)) (reports s), map ((!) (heap s)) (actionedReports s))"

section \<open>\<open>ValidatePassword\<close>\<close>

text \<open>
  \<open>bcrypt.compare(password, hash)\<close> is a parameter: it returns whether the password matches
  the hash, or throws. The loop returns at the first match; the second component lists the
  hashes it compared with, in order.
\<close>

fun compare_each :: "(string \<Rightarrow> jserror + bool) \<Rightarrow> string list \<Rightarrow> bool \<times> string list" where
  "compare_each cmp [] = (False, [])"
| "compare_each cmp (hash # hashes) =
     (case cmp hash of
        Inr isMatch \<Rightarrow>
          if isMatch then (True, [hash])
          else (let (r, tried) = compare_each cmp hashes in (r, hash # tried))
      | Inl error \<Rightarrow> (let (r, tried) = compare_each cmp hashes in (r, hash # tried)))"

definition ValidatePassword ::
  "environment \<Rightarrow> ('p \<Rightarrow> string \<Rightarrow> jserror + bool) \<Rightarrow> 'p \<Rightarrow> bool \<times> string list" where
  "ValidatePassword e bcrypt_compare password =
     (case env_LOGIN_HASHES e of
        None \<Rightarrow> (False, [])
      | Some loginHashes \<Rightarrow>
          if loginHashes = [] then (False, [])
          else
            let hashes = filter (\<lambda>hash. length hash > 0) (map trim (split (CHR '';'') loginHashes))
            in if length hashes = 0 then (False, [])
               else compare_each (bcrypt_compare password) hashes)"

section \<open>Notions used in the statements\<close>

text \<open>The ids of the pending reports, in the order of the array.\<close>

definition pending_ids :: "store \<Rightarrow> string list" where
  "pending_ids s = map (\<lambda>r. id' (heap s ! r)) (reports s)"

text \<open>The store after the report at index \<open>i\<close> of the pending array was actioned with
  status \<open>a\<close> at time \<open>t\<close>.\<close>

definition moved :: "store \<Rightarrow> nat \<Rightarrow> string \<Rightarrow> string \<Rightarrow> store" where
  "moved s i a t =
     \<lparr>heap = (heap s)[reports s ! i := (heap s ! (reports s ! i))\<lparr>status := a, actionedAt := Some t\<rparr>],
      reports = splice1 i (reports s),
      actionedReports = actionedReports s @ [reports s ! i]\<rparr>"

text \<open>
  The invariant of the store: no reference stands twice in the two arrays together, the
  two arrays hold exactly the references of the objects created, a pending report has
  status \<open>pending\<close> and no action time, an actioned report has a terminal status and an
  action time, and every id has 16 characters.
\<close>

definition store_inv :: "store \<Rightarrow> bool" where
  "store_inv s =
     (distinct (reports s @ actionedReports s)
      \<and> set (reports s) \<union> set (actionedReports s) = {..<length (heap s)}
      \<and> list_all (\<lambda>r. status (heap s ! r) = ''pending'' \<and> actionedAt (heap s ! r) = None) (reports s)
      \<and> list_all (\<lambda>r. status (heap s ! r) \<in> {''approved'', ''denied''} \<and> actionedAt (heap s ! r) \<noteq> None)
           (actionedReports s)
      \<and> list_all (\<lambda>x. length (id' x) = 16) (heap s))"

text \<open>A field that is absent or null.\<close>

definition missing :: "jsval \<Rightarrow> bool" where
  "missing v = (v = JUndefined \<or> v = JNull)"

text \<open>Whether the conversion of an identifier to a number throws, and whether it gives NaN.\<close>

definition coercion_throws :: "jsval \<Rightarrow> bool" where
  "coercion_throws v = (case as_number v of Inl error \<Rightarrow> True | Inr n \<Rightarrow> False)"

definition coerces_to_NaN :: "jsval \<Rightarrow> bool" where
  "coerces_to_NaN v = (as_number v = Inr NaN)"

text \<open>The report object that a submission builds.\<close>

definition new_report :: "world \<Rightarrow> string \<Rightarrow> jsnum \<Rightarrow> jsnum \<Rightarrow> string \<Rightarrow> string \<Rightarrow> report" where
  "new_report w req_ip tn rn c rs =
     \<lparr>id' = generateReportId (entropy w), target = tn, reporter = rn, context' = trim c,
      reason = trim rs, timestamp = now w, ip = req_ip, status = ''pending'', actionedAt = None\<rparr>"

text \<open>The configured hashes: the pieces of \<open>LOGIN_HASHES\<close> between semicolons, trimmed, the
  empty ones left out; none when the variable is not set.\<close>

definition configured_hashes :: "environment \<Rightarrow> string list" where
  "configured_hashes e =
     (case env_LOGIN_HASHES e of
        None \<Rightarrow> []
      | Some loginHashes \<Rightarrow> filter (\<lambda>h. h \<noteq> []) (map trim (split (CHR '';'') loginHashes)))"

text \<open>An external store whose calls all settle: each returns or throws.\<close>

definition github_settles :: "github \<Rightarrow> bool" where
  "github_settles g = (getContent g \<noteq> Unsettled \<and> (\<forall>c. createOrUpdateFileContents g c \<noteq> Unsettled))"

section \<open>Sample configurations, worlds and requests\<close>

definition env_default :: environment where
  "env_default = \<lparr>env_PORT = None, env_GITHUB_ENABLED = None, env_GITHUB_TOKEN = None,
     env_REPORTS_WEBHOOK = None, env_ACTIONS_WEBHOOK = None, env_RENDER_EXTERNAL_URL = None,
     env_LOGIN_HASHES = None\<rparr>"

definition env_github :: environment where
  "env_github = env_default\<lparr>env_GITHUB_ENABLED := Some ''true'', env_GITHUB_TOKEN := Some ''ghp_token'',
     env_LOGIN_HASHES := Some ''$2b$12$aaaa; $2b$12$bbbb;''\<rparr>"

definition net_refused :: network where
  "net_refused = \<lparr>import_node_fetch = Fulfilled (),
     fetch = (\<lambda>url content. Rejected (JsError ''FetchError'' ''connect ECONNREFUSED'' (Some ''ECONNREFUSED'')))\<rparr>"

definition gh_absent :: github where
  "gh_absent = \<lparr>getContent = Rejected (JsError ''HttpError'' ''Not Found'' None),
     JSON_parse = (\<lambda>t. Inl (JsError ''SyntaxError'' ''Unexpected token'' None)),
     date_added_now = ''2025-01-01T00:05:00.100Z'',
     last_updated_now = ''2025-01-01T00:05:00.101Z'',
     createOrUpdateFileContents = (\<lambda>c. Fulfilled ())\<rparr>"

definition gh_conflict :: github where
  "gh_conflict = gh_absent\<lparr>createOrUpdateFileContents :=
     (\<lambda>c. Rejected (JsError ''HttpError'' ''sha does not match'' None))\<rparr>"

definition gh_hanging :: github where
  "gh_hanging = gh_absent\<lparr>getContent := Unsettled\<rparr>"

definition world_a :: world where
  "world_a = \<lparr>entropy = (\<lambda>i. of_nat (37 * i + 11)), now = ''2025-01-01T00:00:00.000Z'',
     net = net_refused, gh = gh_absent\<rparr>"

definition world_b :: world where
  "world_b = \<lparr>entropy = (\<lambda>i. of_nat (5 * i + 200)), now = ''2025-01-01T00:05:00.000Z'',
     net = net_refused, gh = gh_absent\<rparr>"

definition body_spam :: "(string \<times> jsval) list" where
  "body_spam = [(''target'', JNum (Fin 42)), (''reporter'', JNum (Fin 7)),
     (''context'', JStr ''spam''), (''reason'', JStr ''scamming'')]"

definition action_body :: "string \<Rightarrow> string \<Rightarrow> (string \<times> jsval) list" where
  "action_body rid a = [(''reportId'', JStr rid), (''action'', JStr a)]"

definition report_spam :: report where
  "report_spam = \<lparr>id' = ''0b30557a9fc4e90e'', target = Fin 42, reporter = Fin 7,
     context' = ''spam'', reason = ''scamming'', timestamp = ''2025-01-01T00:00:00.000Z'',
     ip = ''203.0.113.9'', status = ''pending'', actionedAt = None\<rparr>"

definition report_approved :: report where
  "report_approved = report_spam\<lparr>status := ''approved'', actionedAt := Some ''2025-01-01T00:05:00.000Z''\<rparr>"

definition store_one :: store where
  "store_one = \<lparr>heap = [report_spam], reports = [0], actionedReports = []\<rparr>"

definition store_actioned :: store where
  "store_actioned = \<lparr>heap = [report_approved], reports = [], actionedReports = [0]\<rparr>"

definition requests_one :: "request list" where
  "requests_one = [Report world_a ''203.0.113.9'' body_spam]"

definition requests_two :: "request list" where
  "requests_two = [Report world_a ''203.0.113.9'' body_spam,
                   Action world_b (action_body ''0b30557a9fc4e90e'' ''approved'')]"

definition requests_again :: "request list" where
  "requests_again = [Action world_b (action_body ''0b30557a9fc4e90e'' ''denied''),
                     Report world_b ''203.0.113.9'' body_spam,
                     Action world_b (action_body ''c8cdd2d7dce1e6eb'' ''denied'')]"

definition body_no_target :: "(string \<times> jsval) list" where
  "body_no_target = [(''reporter'', JNum (Fin 7)), (''context'', JStr ''spam''), (''reason'', JStr ''scamming'')]"

definition body_not_a_number :: "(string \<times> jsval) list" where
  "body_not_a_number = [(''target'', JStr ''abc''), (''reporter'', JNum (Fin 7)),
     (''context'', JStr ''spam''), (''reason'', JStr ''scamming'')]"

definition body_infinity :: "(string \<times> jsval) list" where
  "body_infinity = [(''target'', JStr ''Infinity''), (''reporter'', JNum (Fin 7)),
     (''context'', JStr ''spam''), (''reason'', JStr ''scamming'')]"

definition body_object :: "(string \<times> jsval) list" where
  "body_object = [(''target'', JObj [(''toString'', JNum (Fin 1))]), (''reporter'', JNum (Fin 7)),
     (''context'', JStr ''spam''), (''reason'', JStr ''scamming'')]"

definition body_no_reason :: "(string \<times> jsval) list" where
  "body_no_reason = [(''target'', JNum (Fin 42)), (''reporter'', JNum (Fin 7)), (''context'', JStr ''spam'')]"

definition body_numeric_reason :: "(string \<times> jsval) list" where
  "body_numeric_reason = [(''target'', JStr ''42''), (''reporter'', JNum (Fin 7)),
     (''context'', JStr '' spam ''), (''reason'', JNum (Fin 5))]"

definition report_second :: report where
  "report_second = \<lparr>id' = ''c8cdd2d7dce1e6eb'', target = Fin 42, reporter = Fin 7,
     context' = ''spam'', reason = ''scamming'', timestamp = ''2025-01-01T00:05:00.000Z'',
     ip = ''198.51.100.4'', status = ''pending'', actionedAt = None\<rparr>"

text \<open>A stand-in for \<open>bcrypt.compare\<close>: it throws on the first sample hash and matches
  one password with the second.\<close>

definition bcrypt_sample :: "string \<Rightarrow> string \<Rightarrow> jserror + bool" where
  "bcrypt_sample password hash =
     (if hash = ''$2b$12$aaaa'' then Inl (JsError ''Error'' ''Invalid salt version'' None)
      else Inr (password = ''hunter2'' \<and> hash = ''$2b$12$bbbb''))"

text \<open>A network whose webhook answers with an error status, and one that never answers.\<close>

definition net_rate_limited :: network where
  "net_rate_limited = \<lparr>import_node_fetch = Fulfilled (),
     fetch = (\<lambda>url content. Fulfilled \<lparr>ok = False, response_text = Fulfilled ''rate limited''\<rparr>)\<rparr>"

definition net_hanging :: network where
  "net_hanging = \<lparr>import_node_fetch = Fulfilled (), fetch = (\<lambda>url content. Unsettled)\<rparr>"

section \<open>Lemmas\<close>

subsection \<open>Arrays and ids\<close>

lemma findIndex_Some:
  "findIndex p xs = Some i \<Longrightarrow> i < length xs \<and> p (xs ! i) \<and> (\<forall>j<i. \<not> p (xs ! j))"
proof (induction xs arbitrary: i)
  case Nil
  then show ?case by simp
next
  case (Cons x xs)
  show ?case
  proof (cases "p x")
    case True
    with Cons.prems show ?thesis by simp
  next
    case False
    with Cons.prems obtain k where k: "findIndex p xs = Some k" "i = Suc k"
      by (auto split: option.splits)
    from Cons.IH[OF k(1)] False k(2) show ?thesis
      by (auto simp: less_Suc_eq_0_disj)
  qed
qed

lemma findIndex_None: "findIndex p xs = None \<longleftrightarrow> (\<forall>x \<in> set xs. \<not> p x)"
  by (induction xs) (auto split: option.splits)

lemma length_toString_hex: "length (toString_hex bs) = 2 * length bs"
  by (induction bs) (simp_all add: toString_hex_def)

lemma hex_digit_lower: "n < 16 \<Longrightarrow> hex_digit n \<in> set hex_chars"
  unfolding hex_digit_def by (rule nth_mem) (simp add: hex_chars_def)

lemma set_toString_hex: "set (toString_hex bs) \<subseteq> set hex_chars"
proof (induction bs)
  case Nil
  show ?case by (simp add: toString_hex_def)
next
  case (Cons b bs)
  have "unat b < 256" using unsigned_less[of b] by simp
  then have "unat b div 16 < 16" by simp
  then have hi: "hex_digit (unat b div 16) \<in> set hex_chars"
    by (rule hex_digit_lower)
  have lo: "hex_digit (unat b mod 16) \<in> set hex_chars"
    by (rule hex_digit_lower) simp
  have "set (toString_hex (b # bs)) =
      {hex_digit (unat b div 16), hex_digit (unat b mod 16)} \<union> set (toString_hex bs)"
    by (simp add: toString_hex_def)
  with hi lo Cons.IH show ?case by simp
qed

lemma length_generateReportId: "length (generateReportId src) = 16"
  by (simp add: generateReportId_def length_toString_hex randomBytes_def)


lemma set_splice1:
  assumes "distinct xs" "i < length xs"
  shows "set (splice1 i xs) = set xs - {xs ! i}" and "distinct (splice1 i xs)"
proof -
  have xs: "xs = take i xs @ xs ! i # drop (Suc i) xs"
    using assms(2) by (rule id_take_nth_drop)
  from assms(1) have d: "distinct (take i xs @ xs ! i # drop (Suc i) xs)"
    using xs by simp
  from d show "distinct (splice1 i xs)"
    by (simp add: splice1_def)
  have "set xs = set (take i xs) \<union> {xs ! i} \<union> set (drop (Suc i) xs)"
    by (subst xs) simp
  moreover from d have "xs ! i \<notin> set (take i xs)" "xs ! i \<notin> set (drop (Suc i) xs)"
    by simp_all
  ultimately show "set (splice1 i xs) = set xs - {xs ! i}"
    by (auto simp: splice1_def)
qed

subsection \<open>The steps of the store and its invariant\<close>

lemma after_post_report:
  "after (post_report e w req_ip b s) = s \<or>
   (\<exists>rep. after (post_report e w req_ip b s)
             = s\<lparr>heap := heap s @ [rep], reports := reports s @ [length (heap s)]\<rparr>
          \<and> status rep = ''pending'' \<and> actionedAt rep = None \<and> length (id' rep) = 16)"
  by (auto simp: post_report_def Let_def unchanged_def length_generateReportId split: sum.splits)

lemma after_post_api_action_found:
  assumes "truthy (get_prop b ''reportId'')" "truthy (get_prop b ''action'')"
    "array_includes [''approved'', ''denied''] (get_prop b ''action'')"
    "findIndex (\<lambda>r. JStr (id' (heap s ! r)) = get_prop b ''reportId'') (reports s) = Some i"
  shows "after (post_api_action e w b s)
          = \<lparr>heap = (heap s)[reports s ! i := (heap s ! (reports s ! i))
                      \<lparr>status := string_of (get_prop b ''action''), actionedAt := Some (now w)\<rparr>],
             reports = splice1 i (reports s),
             actionedReports = actionedReports s @ [reports s ! i]\<rparr>"
  using assms by (simp add: post_api_action_def Let_def)

lemma after_post_api_action_other:
  assumes "\<not> truthy (get_prop b ''reportId'') \<or> \<not> truthy (get_prop b ''action'')
    \<or> \<not> array_includes [''approved'', ''denied''] (get_prop b ''action'')
    \<or> findIndex (\<lambda>r. JStr (id' (heap s ! r)) = get_prop b ''reportId'') (reports s) = None"
  shows "post_api_action e w b s = unchanged s (reply (post_api_action e w b s))"
  using assms by (auto simp add: post_api_action_def Let_def unchanged_def)

lemma array_includes_string_of:
  "array_includes xs v \<Longrightarrow> string_of v \<in> set xs \<and> v = JStr (string_of v)"
  by (cases v) (simp_all add: array_includes_def string_of_def)

lemma after_post_api_action:
  "after (post_api_action e w b s) = s \<or>
   (\<exists>i a t. i < length (reports s) \<and> a \<in> {''approved'', ''denied''}
      \<and> after (post_api_action e w b s)
          = \<lparr>heap = (heap s)[reports s ! i := (heap s ! (reports s ! i))\<lparr>status := a, actionedAt := Some t\<rparr>],
             reports = splice1 i (reports s),
             actionedReports = actionedReports s @ [reports s ! i]\<rparr>)"
proof (cases "truthy (get_prop b ''reportId'') \<and> truthy (get_prop b ''action'')
    \<and> array_includes [''approved'', ''denied''] (get_prop b ''action'')
    \<and> findIndex (\<lambda>r. JStr (id' (heap s ! r)) = get_prop b ''reportId'') (reports s) \<noteq> None")
  case True
  then obtain i where i: "findIndex (\<lambda>r. JStr (id' (heap s ! r)) = get_prop b ''reportId'') (reports s) = Some i"
    by auto
  then have lt: "i < length (reports s)" by (auto dest: findIndex_Some)
  from True have a: "string_of (get_prop b ''action'') \<in> {''approved'', ''denied''}"
    using array_includes_string_of[of "[''approved'', ''denied'']" "get_prop b ''action''"] by simp
  from True i have "after (post_api_action e w b s)
          = \<lparr>heap = (heap s)[reports s ! i := (heap s ! (reports s ! i))
                      \<lparr>status := string_of (get_prop b ''action''), actionedAt := Some (now w)\<rparr>],
             reports = splice1 i (reports s),
             actionedReports = actionedReports s @ [reports s ! i]\<rparr>"
    by (intro after_post_api_action_found) simp_all
  with lt a show ?thesis by blast
next
  case False
  then have "post_api_action e w b s = unchanged s (reply (post_api_action e w b s))"
    by (intro after_post_api_action_other) blast
  then have "after (post_api_action e w b s) = after (unchanged s (reply (post_api_action e w b s)))"
    by simp
  then show ?thesis by (simp add: unchanged_def)
qed

lemma store_inv_add:
  assumes "store_inv s" "status rep = ''pending''" "actionedAt rep = None" "length (id' rep) = 16"
  shows "store_inv (s\<lparr>heap := heap s @ [rep], reports := reports s @ [length (heap s)]\<rparr>)"
proof -
  from assms(1) have fresh: "length (heap s) \<notin> set (reports s) \<union> set (actionedReports s)"
    by (simp add: store_inv_def)
  from assms(1) have lt: "\<forall>r \<in> set (reports s) \<union> set (actionedReports s). r < length (heap s)"
    by (simp add: store_inv_def)
  from assms fresh lt show ?thesis
    by (auto simp: store_inv_def list_all_iff nth_append)
qed

lemma store_inv_move:
  assumes "store_inv s" "i < length (reports s)" "a \<in> {''approved'', ''denied''}"
  shows "store_inv \<lparr>heap = (heap s)[reports s ! i := (heap s ! (reports s ! i))\<lparr>status := a, actionedAt := Some t\<rparr>],
             reports = splice1 i (reports s),
             actionedReports = actionedReports s @ [reports s ! i]\<rparr>"
proof -
  let ?r = "reports s ! i"
  let ?h = "(heap s)[?r := (heap s ! ?r)\<lparr>status := a, actionedAt := Some t\<rparr>]"
  from assms(1) have d: "distinct (reports s)" "distinct (actionedReports s)"
    and disj: "set (reports s) \<inter> set (actionedReports s) = {}"
    and all: "set (reports s) \<union> set (actionedReports s) = {..<length (heap s)}"
    and pend: "\<forall>r \<in> set (reports s). status (heap s ! r) = ''pending'' \<and> actionedAt (heap s ! r) = None"
    and act: "\<forall>r \<in> set (actionedReports s).
                status (heap s ! r) \<in> {''approved'', ''denied''} \<and> actionedAt (heap s ! r) \<noteq> None"
    and ids: "\<forall>x \<in> set (heap s). length (id' x) = 16"
    by (simp_all add: store_inv_def list_all_iff)
  from assms(2) have r: "?r \<in> set (reports s)" by simp
  with all have rlt: "?r < length (heap s)" by blast
  from r disj have rna: "?r \<notin> set (actionedReports s)" by blast
  note sp = set_splice1[OF d(1) assms(2)]
  have c1: "distinct (splice1 i (reports s) @ (actionedReports s @ [?r]))"
    using sp d disj rna by auto
  have c2: "set (splice1 i (reports s)) \<union> set (actionedReports s @ [?r]) = {..<length ?h}"
    using sp all r by auto
  have c3: "\<forall>q \<in> set (splice1 i (reports s)). status (?h ! q) = ''pending'' \<and> actionedAt (?h ! q) = None"
    using sp pend by (simp add: nth_list_update)
  have c4: "\<forall>q \<in> set (actionedReports s @ [?r]).
              status (?h ! q) \<in> {''approved'', ''denied''} \<and> actionedAt (?h ! q) \<noteq> None"
    using act rna rlt assms(3) by (auto simp: nth_list_update)
  have "heap s ! ?r \<in> set (heap s)" using rlt by simp
  with ids have "length (id' (heap s ! ?r)) = 16" by blast
  then have c5: "\<forall>x \<in> set ?h. length (id' x) = 16"
    using ids by (auto dest!: set_update_subset_insert[THEN subsetD])
  from c1 c2 c3 c4 c5 show ?thesis
    by (simp add: store_inv_def list_all_iff)
qed

lemma store_inv_empty: "store_inv empty_store"
  by (simp add: store_inv_def empty_store_def)

lemma store_inv_handle: "store_inv s \<Longrightarrow> store_inv (after (handle e q s))"
proof (cases q)
  case (Report w req_ip b)
  assume "store_inv s"
  with after_post_report[of e w req_ip b s] Report show ?thesis
    by (auto intro: store_inv_add)
next
  case (Action w b)
  assume "store_inv s"
  with after_post_api_action[of e w b s] Action show ?thesis
    by (auto intro: store_inv_move)
qed

lemma store_inv_run: "store_inv s \<Longrightarrow> store_inv (run e qs s)"
  by (induction qs arbitrary: s) (simp_all add: store_inv_handle)

subsection \<open>The outcomes of an action, case by case\<close>

lemma splice1_remove1: "distinct xs \<Longrightarrow> i < length xs \<Longrightarrow> splice1 i xs = remove1 (xs ! i) xs"
proof (induction xs arbitrary: i)
  case Nil
  then show ?case by simp
next
  case (Cons x xs)
  show ?case
  proof (cases i)
    case 0
    then show ?thesis by (simp add: splice1_def)
  next
    case (Suc k)
    with Cons.prems have "k < length xs" "distinct xs" "xs ! k \<noteq> x" by auto
    with Cons.IH[of k] Suc show ?thesis by (simp add: splice1_def)
  qed
qed

lemma FireWebhook_never_rejects: "snd (FireWebhook nw c u) \<noteq> Rejected err"
  by (simp add: FireWebhook_def split: promise.splits)

lemma addToGitHubBanList_never_rejects: "snd (addToGitHubBanList e g r) \<noteq> Rejected err"
  by (simp add: addToGitHubBanList_def split: promise.splits option.splits sum.splits prod.splits)

lemma post_api_action_approved:
  assumes "truthy (get_prop b ''reportId'')" "get_prop b ''action'' = JStr ''approved''"
    "findIndex (\<lambda>r. JStr (id' (heap s ! r)) = get_prop b ''reportId'') (reports s) = Some i"
  shows "post_api_action e w b s =
     \<lparr>reply = (case snd (addToGitHubBanList e (gh w) (heap (moved s i ''approved'' (now w)) ! (reports s ! i))) of
                 Fulfilled u \<Rightarrow> Sent 200 (Actioned ''Report approved successfull!'')
               | Rejected error \<Rightarrow> Raised error
               | Unsettled \<Rightarrow> NoReply),
      after = moved s i ''approved'' (now w),
      fired = [(approved_text (heap (moved s i ''approved'' (now w)) ! (reports s ! i)), ACTIONS_WEBHOOK e)],
      synced = [reports s ! i],
      console = fst (FireWebhook (net w)
                  (approved_text (heap (moved s i ''approved'' (now w)) ! (reports s ! i))) (ACTIONS_WEBHOOK e))
                @ fst (addToGitHubBanList e (gh w) (heap (moved s i ''approved'' (now w)) ! (reports s ! i)))\<rparr>"
  using assms
  by (simp add: post_api_action_def Let_def array_includes_def string_of_def moved_def)

lemma post_api_action_denied:
  assumes "truthy (get_prop b ''reportId'')" "get_prop b ''action'' = JStr ''denied''"
    "findIndex (\<lambda>r. JStr (id' (heap s ! r)) = get_prop b ''reportId'') (reports s) = Some i"
  shows "post_api_action e w b s =
     \<lparr>reply = Sent 200 (Actioned ''Report denied successfull!''),
      after = moved s i ''denied'' (now w),
      fired = [(else_text (heap (moved s i ''denied'' (now w)) ! (reports s ! i)), ACTIONS_WEBHOOK e)],
      synced = [],
      console = fst (FireWebhook (net w)
                  (else_text (heap (moved s i ''denied'' (now w)) ! (reports s ! i))) (ACTIONS_WEBHOOK e))\<rparr>"
  using assms
  by (simp add: post_api_action_def Let_def array_includes_def string_of_def moved_def)

lemma post_api_action_not_found:
  assumes "truthy (get_prop b ''reportId'')" "get_prop b ''action'' = JStr a" "a = ''approved'' \<or> a = ''denied''"
    "findIndex (\<lambda>r. JStr (id' (heap s ! r)) = get_prop b ''reportId'') (reports s) = None"
  shows "post_api_action e w b s = unchanged s (Sent 404 (Error ''Report not found!''))"
  using assms
  by (auto simp add: post_api_action_def Let_def array_includes_def)

lemma post_api_action_invalid:
  assumes "\<not> truthy (get_prop b ''reportId'') \<or> \<not> truthy (get_prop b ''action'')
     \<or> \<not> array_includes [''approved'', ''denied''] (get_prop b ''action'')"
  shows "post_api_action e w b s = unchanged s (Sent 400 (Error ''Invalid action or report ID!''))"
  using assms
  by (auto simp add: post_api_action_def Let_def)

lemma pending_id_found:
  assumes "store_inv s" "rid \<in> set (pending_ids s)"
  shows "\<exists>i. findIndex (\<lambda>r. JStr (id' (heap s ! r)) = JStr rid) (reports s) = Some i
           \<and> i < length (reports s) \<and> id' (heap s ! (reports s ! i)) = rid \<and> rid \<noteq> []"
proof -
  from assms(2) have "\<exists>r \<in> set (reports s). JStr (id' (heap s ! r)) = JStr rid"
    by (auto simp: pending_ids_def)
  then have "findIndex (\<lambda>r. JStr (id' (heap s ! r)) = JStr rid) (reports s) \<noteq> None"
    by (simp add: findIndex_None)
  then obtain i where i: "findIndex (\<lambda>r. JStr (id' (heap s ! r)) = JStr rid) (reports s) = Some i"
    by auto
  from findIndex_Some[OF i] have lt: "i < length (reports s)" and eq: "id' (heap s ! (reports s ! i)) = rid"
    by simp_all
  from lt have "reports s ! i \<in> set (reports s)" by simp
  with assms(1) have "reports s ! i < length (heap s)" by (auto simp: store_inv_def)
  then have "heap s ! (reports s ! i) \<in> set (heap s)" by simp
  with assms(1) have "length (id' (heap s ! (reports s ! i))) = 16"
    by (simp add: store_inv_def list_all_iff)
  with eq have "rid \<noteq> []" by auto
  with i lt eq show ?thesis by blast
qed


subsection \<open>The outcomes of a submission\<close>

lemma post_report_missing:
  assumes "missing (get_prop b ''target'') \<or> missing (get_prop b ''reporter'') \<or> \<not> truthy (get_prop b ''context'')"
  shows "post_report e w req_ip b s =
     unchanged s (Sent 400 (Error ''Missing required fields: target, reporter, context, reason''))"
  using assms by (auto simp: post_report_def Let_def missing_def)

lemma post_report_throws:
  assumes "\<not> missing (get_prop b ''target'')" "\<not> missing (get_prop b ''reporter'')" "truthy (get_prop b ''context'')"
    and "coercion_throws (get_prop b ''target'') \<or> coercion_throws (get_prop b ''reporter'')"
  shows "\<exists>error. post_report e w req_ip b s = unchanged s (Raised error)"
  using assms by (auto simp: post_report_def Let_def missing_def coercion_throws_def split: sum.splits)

lemma post_report_invalid:
  assumes "\<not> missing (get_prop b ''target'')" "\<not> missing (get_prop b ''reporter'')" "truthy (get_prop b ''context'')"
    and "as_number (get_prop b ''target'') = Inr tn" "as_number (get_prop b ''reporter'') = Inr rn"
    and "tn = NaN \<or> rn = NaN \<or> \<not> is_string (get_prop b ''context'')"
  shows "post_report e w req_ip b s = unchanged s (Sent 400 (Error
          ''Invalid field types: target and reporter must be valid numbers, context must be string''))"
  using assms by (auto simp: post_report_def Let_def missing_def isNaN_def)

lemma post_report_reason:
  assumes "\<not> missing (get_prop b ''target'')" "\<not> missing (get_prop b ''reporter'')"
    and "as_number (get_prop b ''target'') = Inr tn" "as_number (get_prop b ''reporter'') = Inr rn"
    and "tn \<noteq> NaN" "rn \<noteq> NaN" "get_prop b ''context'' = JStr c" "c \<noteq> []"
    and "call_trim (get_prop b ''reason'') = Inl error"
  shows "post_report e w req_ip b s = unchanged s (Raised error)"
  using assms by (simp add: post_report_def Let_def missing_def isNaN_def call_trim_def)

lemma post_report_accepted:
  assumes "\<not> missing (get_prop b ''target'')" "\<not> missing (get_prop b ''reporter'')"
    and "as_number (get_prop b ''target'') = Inr tn" "as_number (get_prop b ''reporter'') = Inr rn"
    and "tn \<noteq> NaN" "rn \<noteq> NaN" "get_prop b ''context'' = JStr c" "c \<noteq> []"
    and "get_prop b ''reason'' = JStr rs"
  shows "post_report e w req_ip b s =
     \<lparr>reply = Sent 201 (Submitted (''Report '' @ generateReportId (entropy w) @ '' submitted successfully!'')
                 (generateReportId (entropy w))),
      after = s\<lparr>heap := heap s @ [new_report w req_ip tn rn c rs], reports := reports s @ [length (heap s)]\<rparr>,
      fired = [(new_report_text e (Suc (length (reports s))), REPORTS_WEBHOOK e)],
      synced = [],
      console = fst (FireWebhook (net w) (new_report_text e (Suc (length (reports s)))) (REPORTS_WEBHOOK e))\<rparr>"
  using assms by (simp add: post_report_def Let_def missing_def isNaN_def call_trim_def new_report_def)

lemma call_trim_not_string: "\<not> is_string v \<Longrightarrow> \<exists>error. call_trim v = Inl error"
  by (cases v) (simp_all add: call_trim_def)

lemma falsy_not_nonempty_string: "\<not> truthy v \<longleftrightarrow> (v = JStr [] \<or> (\<not> is_string v \<and> \<not> truthy v))"
  by (cases v) auto

subsection \<open>Actioned reports stay actioned\<close>

lemma handle_keeps_actioned:
  assumes "store_inv s" "r \<in> set (actionedReports s)"
  shows "r \<in> set (actionedReports (after (handle e q s))) \<and> heap (after (handle e q s)) ! r = heap s ! r"
proof -
  from assms have rlt: "r < length (heap s)" and rnp: "r \<notin> set (reports s)"
    by (auto simp: store_inv_def)
  have "after (handle e q s) = s
      \<or> (\<exists>rep. after (handle e q s) = s\<lparr>heap := heap s @ [rep], reports := reports s @ [length (heap s)]\<rparr>)
      \<or> (\<exists>i a t. i < length (reports s) \<and> after (handle e q s) = moved s i a t)"
  proof (cases q)
    case (Report w req_ip b)
    with after_post_report[of e w req_ip b s] show ?thesis by auto
  next
    case (Action w b)
    with after_post_api_action[of e w b s] show ?thesis by (auto simp: moved_def)
  qed
  then show ?thesis
  proof (elim disjE exE conjE)
    assume "after (handle e q s) = s"
    with assms(2) show ?thesis by simp
  next
    fix rep
    assume "after (handle e q s) = s\<lparr>heap := heap s @ [rep], reports := reports s @ [length (heap s)]\<rparr>"
    with assms(2) rlt show ?thesis by (simp add: nth_append)
  next
    fix i a t
    assume i: "i < length (reports s)" and m: "after (handle e q s) = moved s i a t"
    from i have "reports s ! i \<in> set (reports s)" by simp
    with rnp have "reports s ! i \<noteq> r" by auto
    with assms(2) show ?thesis by (simp add: m moved_def)
  qed
qed

lemma run_keeps_actioned:
  "store_inv s \<Longrightarrow> r \<in> set (actionedReports s) \<Longrightarrow>
     r \<in> set (actionedReports (run e qs s)) \<and> heap (run e qs s) ! r = heap s ! r"
proof (induction qs arbitrary: s)
  case Nil
  then show ?case by simp
next
  case (Cons q qs)
  from handle_keeps_actioned[OF Cons.prems, of e q] have
    k: "r \<in> set (actionedReports (after (handle e q s)))" "heap (after (handle e q s)) ! r = heap s ! r"
    by simp_all
  from Cons.IH[OF store_inv_handle[OF Cons.prems(1)] k(1)] k(2) show ?case by simp
qed

subsection \<open>The comparison loop\<close>

lemma compare_each_fst: "fst (compare_each cmp hs) \<longleftrightarrow> (\<exists>h \<in> set hs. cmp h = Inr True)"
  by (induction hs) (auto split: sum.splits prod.splits)

lemma compare_each_snd: "set (snd (compare_each cmp hs)) \<subseteq> set hs"
  by (induction hs) (auto split: sum.splits prod.splits)

subsection \<open>Replies, dispatched calls and the worlds\<close>

lemma array_includes_decision:
  "array_includes [''approved'', ''denied''] v \<longleftrightarrow> v = JStr ''approved'' \<or> v = JStr ''denied''"
  by (cases v) (auto simp: array_includes_def)


lemma addToGitHubBanList_settles:
  "github_settles g \<Longrightarrow> snd (addToGitHubBanList e g r) = Fulfilled ()"
  by (auto simp: addToGitHubBanList_def github_settles_def get_current_file_def
           split: promise.splits option.splits sum.splits prod.splits)

lemma post_report_world:
  "reply (post_report e (w\<lparr>net := nw, gh := g\<rparr>) req_ip b s) = reply (post_report e w req_ip b s)
   \<and> after (post_report e (w\<lparr>net := nw, gh := g\<rparr>) req_ip b s) = after (post_report e w req_ip b s)
   \<and> fired (post_report e (w\<lparr>net := nw, gh := g\<rparr>) req_ip b s) = fired (post_report e w req_ip b s)"
  by (simp add: post_report_def Let_def unchanged_def split: sum.splits)

lemma post_api_action_cases:
  obtains (invalid) "\<And>w. post_api_action e w b s = unchanged s (Sent 400 (Error ''Invalid action or report ID!''))"
  | (not_found) "\<And>w. post_api_action e w b s = unchanged s (Sent 404 (Error ''Report not found!''))"
  | (approved) i where "truthy (get_prop b ''reportId'')" "get_prop b ''action'' = JStr ''approved''"
      "findIndex (\<lambda>r. JStr (id' (heap s ! r)) = get_prop b ''reportId'') (reports s) = Some i"
  | (denied) i where "truthy (get_prop b ''reportId'')" "get_prop b ''action'' = JStr ''denied''"
      "findIndex (\<lambda>r. JStr (id' (heap s ! r)) = get_prop b ''reportId'') (reports s) = Some i"
proof (cases "\<not> truthy (get_prop b ''reportId'') \<or> \<not> truthy (get_prop b ''action'')
     \<or> \<not> array_includes [''approved'', ''denied''] (get_prop b ''action'')")
  case True
  from post_api_action_invalid[OF this] show ?thesis by (rule invalid)
next
  case False
  then have tr: "truthy (get_prop b ''reportId'')"
    and d: "get_prop b ''action'' = JStr ''approved'' \<or> get_prop b ''action'' = JStr ''denied''"
    by (simp_all add: array_includes_decision)
  show ?thesis
  proof (cases "findIndex (\<lambda>r. JStr (id' (heap s ! r)) = get_prop b ''reportId'') (reports s)")
    case None
    from d obtain a where a: "get_prop b ''action'' = JStr a" "a = ''approved'' \<or> a = ''denied''" by auto
    from post_api_action_not_found[OF tr a None] show ?thesis by (rule not_found)
  next
    case (Some i)
    from d show ?thesis
    proof
      assume "get_prop b ''action'' = JStr ''approved''"
      with tr Some show ?thesis by (intro approved)
    next
      assume "get_prop b ''action'' = JStr ''denied''"
      with tr Some show ?thesis by (intro denied)
    qed
  qed
qed

lemma post_api_action_tasks:
  "after (post_api_action e (w\<lparr>net := nw, gh := g\<rparr>) b s) = after (post_api_action e w b s)
   \<and> fired (post_api_action e (w\<lparr>net := nw, gh := g\<rparr>) b s) = fired (post_api_action e w b s)
   \<and> synced (post_api_action e (w\<lparr>net := nw, gh := g\<rparr>) b s) = synced (post_api_action e w b s)
   \<and> reply (post_api_action e (w\<lparr>net := nw\<rparr>) b s) = reply (post_api_action e w b s)
   \<and> (github_settles g \<and> github_settles (gh w) \<longrightarrow>
        reply (post_api_action e (w\<lparr>net := nw, gh := g\<rparr>) b s) = reply (post_api_action e w b s))"
proof (cases rule: post_api_action_cases[of e b s])
  case invalid
  then show ?thesis by simp
next
  case not_found
  then show ?thesis by simp
next
  case (approved i)
  show ?thesis
    by (simp add: post_api_action_approved[OF approved] addToGitHubBanList_settles)
next
  case (denied i)
  show ?thesis
    by (simp add: post_api_action_denied[OF denied])
qed

lemma text_ignores_status:
  "approved_text (x\<lparr>status := a, actionedAt := t\<rparr>) = approved_text x"
  "else_text (x\<lparr>status := a, actionedAt := t\<rparr>) = else_text x"
  "else_text x = approved_text x"
  by (simp_all add: approved_text_def else_text_def)

lemma moved_text:
  "approved_text (heap (moved s i a t) ! (reports s ! i)) = approved_text (heap s ! (reports s ! i))"
proof (cases "reports s ! i < length (heap s)")
  case True
  then show ?thesis by (simp add: moved_def text_ignores_status)
next
  case False
  then show ?thesis by (simp add: moved_def list_update_beyond)
qed

subsection \<open>The sample runs\<close>

lemma run_requests_one: "store_one = run env_github requests_one empty_store"
  by code_simp

lemma run_requests_two: "store_actioned = run env_github requests_two empty_store"
  by code_simp


section \<open>The claims\<close>

subsection \<open>C1: the action transition\<close>

text \<open>
  Claim C1, as amended. In every store reached from the empty one, for a decision that is
  \<open>approved\<close> or \<open>denied\<close>: an id of a pending report moves the first pending report with
  that id: its status becomes the decision, its \<open>actionedAt\<close> the current time, it leaves
  the pending array and is appended to the actioned one; the reply is the success
  response, sent once the awaited ban-list call has settled (no reply while an approval's
  call never settles). A non-empty id (any truthy value) that is no pending report's id,
  an already actioned one included, gets 404 and the store is unchanged. An empty or
  missing id (any falsy value) gets 400 and the store is unchanged.
\<close>

theorem action_transition:
  assumes s: "s = run e qs empty_store"
    and a: "get_prop b ''action'' = JStr a" "a = ''approved'' \<or> a = ''denied''"
    and out: "out = post_api_action e w b s"
  shows
    "(\<forall>rid. get_prop b ''reportId'' = JStr rid \<and> rid \<in> set (pending_ids s) \<longrightarrow>
        (\<exists>r \<in> set (reports s).
            id' (heap s ! r) = rid
          \<and> heap (after out) = (heap s)[r := (heap s ! r)\<lparr>status := a, actionedAt := Some (now w)\<rparr>]
          \<and> status (heap (after out) ! r) = a
          \<and> actionedAt (heap (after out) ! r) = Some (now w)
          \<and> reports (after out) = remove1 r (reports s)
          \<and> r \<notin> set (reports (after out))
          \<and> actionedReports (after out) = actionedReports s @ [r]
          \<and> (if a = ''approved'' \<and> snd (addToGitHubBanList e (gh w) (heap (after out) ! r)) = Unsettled
             then reply out = NoReply
             else reply out = Sent 200 (Actioned (''Report '' @ a @ '' successfull!'')))))
   \<and> (truthy (get_prop b ''reportId'') \<and> (\<forall>rid \<in> set (pending_ids s). get_prop b ''reportId'' \<noteq> JStr rid) \<longrightarrow>
        reply out = Sent 404 (Error ''Report not found!'') \<and> after out = s)
   \<and> (\<not> truthy (get_prop b ''reportId'') \<longrightarrow>
        reply out = Sent 400 (Error ''Invalid action or report ID!'') \<and> after out = s)"
proof (intro conjI allI impI)
  fix rid
  assume h: "get_prop b ''reportId'' = JStr rid \<and> rid \<in> set (pending_ids s)"
  have inv: "store_inv s" unfolding s by (rule store_inv_run) (rule store_inv_empty)
  from pending_id_found[OF inv] h obtain i where
    i: "findIndex (\<lambda>r. JStr (id' (heap s ! r)) = get_prop b ''reportId'') (reports s) = Some i"
    and lt: "i < length (reports s)" and eq: "id' (heap s ! (reports s ! i)) = rid" and ne: "rid \<noteq> []"
    by auto
  let ?r = "reports s ! i"
  from h ne have tr: "truthy (get_prop b ''reportId'')" by simp
  from inv have d: "distinct (reports s)" by (simp add: store_inv_def)
  from lt have rin: "?r \<in> set (reports s)" by simp
  with inv have rlt: "?r < length (heap s)" by (auto simp: store_inv_def)
  have aft: "after out = moved s i a (now w)"
  proof (cases "a = ''approved''")
    case True
    with a(1) have "get_prop b ''action'' = JStr ''approved''" by simp
    from post_api_action_approved[OF tr this i, of e w] have
      "after (post_api_action e w b s) = moved s i ''approved'' (now w)" by simp
    with True show ?thesis by (simp only: out)
  next
    case False
    with a have "get_prop b ''action'' = JStr ''denied''" "a = ''denied''" by simp_all
    from post_api_action_denied[OF tr this(1) i, of e w] have
      "after (post_api_action e w b s) = moved s i ''denied'' (now w)" by simp
    with \<open>a = ''denied''\<close> show ?thesis by (simp only: out)
  qed
  have hp: "heap (after out) = (heap s)[?r := (heap s ! ?r)\<lparr>status := a, actionedAt := Some (now w)\<rparr>]"
    by (simp add: aft moved_def)
  have st: "status (heap (after out) ! ?r) = a" "actionedAt (heap (after out) ! ?r) = Some (now w)"
    using rlt by (simp_all add: hp)
  have ac: "actionedReports (after out) = actionedReports s @ [?r]"
    by (simp add: aft moved_def)
  have rm: "reports (after out) = remove1 ?r (reports s)"
    by (simp add: aft moved_def splice1_remove1[OF d lt])
  from d have "?r \<notin> set (remove1 ?r (reports s))" by simp
  then have nin: "?r \<notin> set (reports (after out))" unfolding rm .
  have rep: "if a = ''approved'' \<and> snd (addToGitHubBanList e (gh w) (heap (after out) ! ?r)) = Unsettled
             then reply out = NoReply
             else reply out = Sent 200 (Actioned (''Report '' @ a @ '' successfull!''))"
  proof (cases "a = ''approved''")
    case True
    with a(1) have ap: "get_prop b ''action'' = JStr ''approved''" by simp
    have m: "moved s i ''approved'' (now w) = after out" using aft True by simp
    from post_api_action_approved[OF tr ap i, of e w] have
      "reply (post_api_action e w b s) =
         (case snd (addToGitHubBanList e (gh w) (heap (moved s i ''approved'' (now w)) ! ?r)) of
            Fulfilled u \<Rightarrow> Sent 200 (Actioned ''Report approved successfull!'')
          | Rejected error \<Rightarrow> Raised error
          | Unsettled \<Rightarrow> NoReply)" by simp
    then have r1: "reply out =
         (case snd (addToGitHubBanList e (gh w) (heap (after out) ! ?r)) of
            Fulfilled u \<Rightarrow> Sent 200 (Actioned ''Report approved successfull!'')
          | Rejected error \<Rightarrow> Raised error
          | Unsettled \<Rightarrow> NoReply)"
      by (simp only: m out[symmetric])
    show ?thesis
    proof (cases "snd (addToGitHubBanList e (gh w) (heap (after out) ! ?r))")
      case (Fulfilled u)
      with r1 True show ?thesis by simp
    next
      case (Rejected err)
      with addToGitHubBanList_never_rejects[of e "gh w" "heap (after out) ! ?r" err]
      show ?thesis by simp
    next
      case Unsettled
      with r1 True show ?thesis by simp
    qed
  next
    case False
    with a have "get_prop b ''action'' = JStr ''denied''" "a = ''denied''" by simp_all
    from post_api_action_denied[OF tr this(1) i, of e w] this(2) show ?thesis
      by (simp add: out)
  qed
  have big: "id' (heap s ! ?r) = rid
          \<and> heap (after out) = (heap s)[?r := (heap s ! ?r)\<lparr>status := a, actionedAt := Some (now w)\<rparr>]
          \<and> status (heap (after out) ! ?r) = a
          \<and> actionedAt (heap (after out) ! ?r) = Some (now w)
          \<and> reports (after out) = remove1 ?r (reports s)
          \<and> ?r \<notin> set (reports (after out))
          \<and> actionedReports (after out) = actionedReports s @ [?r]
          \<and> (if a = ''approved'' \<and> snd (addToGitHubBanList e (gh w) (heap (after out) ! ?r)) = Unsettled
             then reply out = NoReply
             else reply out = Sent 200 (Actioned (''Report '' @ a @ '' successfull!'')))"
    by (intro conjI eq hp st rm nin ac rep)
  show "\<exists>r \<in> set (reports s).
            id' (heap s ! r) = rid
          \<and> heap (after out) = (heap s)[r := (heap s ! r)\<lparr>status := a, actionedAt := Some (now w)\<rparr>]
          \<and> status (heap (after out) ! r) = a
          \<and> actionedAt (heap (after out) ! r) = Some (now w)
          \<and> reports (after out) = remove1 r (reports s)
          \<and> r \<notin> set (reports (after out))
          \<and> actionedReports (after out) = actionedReports s @ [r]
          \<and> (if a = ''approved'' \<and> snd (addToGitHubBanList e (gh w) (heap (after out) ! r)) = Unsettled
             then reply out = NoReply
             else reply out = Sent 200 (Actioned (''Report '' @ a @ '' successfull!'')))"
  proof (rule bexI)
    show "?r \<in> set (reports s)" by (rule rin)
  qed (rule big)
next
  assume h: "truthy (get_prop b ''reportId'') \<and> (\<forall>rid \<in> set (pending_ids s). get_prop b ''reportId'' \<noteq> JStr rid)"
  then have "findIndex (\<lambda>r. JStr (id' (heap s ! r)) = get_prop b ''reportId'') (reports s) = None"
    by (auto simp: findIndex_None pending_ids_def)
  from post_api_action_not_found[OF _ a this, of e w] h
  show "reply out = Sent 404 (Error ''Report not found!'')" and "after out = s"
    by (simp_all add: out unchanged_def)
next
  assume h: "\<not> truthy (get_prop b ''reportId'')"
  from post_api_action_invalid[of b e w s] h
  show "reply out = Sent 400 (Error ''Invalid action or report ID!'')" and "after out = s"
    by (simp_all add: out unchanged_def)
qed

text \<open>
  The theorem at the store holding one pending report: approving its id, an unknown id,
  and the same id once more after the approval.
\<close>

theorem action_transition_witness:
  "''0b30557a9fc4e90e'' \<in> set (pending_ids store_one)
   \<and> after (post_api_action env_github world_b (action_body ''0b30557a9fc4e90e'' ''approved'') store_one)
       = store_actioned
   \<and> reply (post_api_action env_github world_b (action_body ''0b30557a9fc4e90e'' ''approved'') store_one)
       = Sent 200 (Actioned ''Report approved successfull!'')
   \<and> reply (post_api_action env_github world_b (action_body ''deadbeef00000000'' ''approved'') store_one)
       = Sent 404 (Error ''Report not found!'')
   \<and> after (post_api_action env_github world_b (action_body ''deadbeef00000000'' ''approved'') store_one)
       = store_one
   \<and> reply (post_api_action env_github world_b (action_body ''0b30557a9fc4e90e'' ''denied'') store_actioned)
       = Sent 404 (Error ''Report not found!'')
   \<and> after (post_api_action env_github world_b (action_body ''0b30557a9fc4e90e'' ''denied'') store_actioned)
       = store_actioned"
proof -
  let ?id = "''0b30557a9fc4e90e''"
  have pend: "pending_ids store_one = [?id]" "pending_ids store_actioned = []"
    by code_simp+
  have props: "get_prop (action_body rid a) ''reportId'' = JStr rid"
    "get_prop (action_body rid a) ''action'' = JStr a" for rid a
    by (simp_all add: action_body_def get_prop_def)
  note found = action_transition[OF run_requests_one props(2) _ refl,
      of "''approved''" ?id world_b, THEN conjunct1, rule_format, of ?id]
  note unknown = action_transition[OF run_requests_one props(2) _ refl,
      of "''approved''" "''deadbeef00000000''" world_b, THEN conjunct2, THEN conjunct1]
  note again = action_transition[OF run_requests_two props(2) _ refl,
      of "''denied''" ?id world_b, THEN conjunct2, THEN conjunct1]
  have settled: "snd (addToGitHubBanList env_github (gh world_b) r) = Fulfilled ()" for r
    by (simp add: addToGitHubBanList_def world_b_def gh_absent_def env_github_def env_default_def
          GITHUB_ENABLED_def GITHUB_TOKEN_def octokit_def or_default_def get_current_file_def push_def)
  have moved: "(heap store_one)[0 := (heap store_one ! 0)\<lparr>status := ''approved'', actionedAt := Some (now world_b)\<rparr>]
      = [report_approved]"
    by (simp add: store_one_def report_approved_def world_b_def)
  from found pend props settled moved have c1:
    "after (post_api_action env_github world_b (action_body ?id ''approved'') store_one) = store_actioned
     \<and> reply (post_api_action env_github world_b (action_body ?id ''approved'') store_one)
       = Sent 200 (Actioned ''Report approved successfull!'')"
    by (simp add: store_one_def store_actioned_def)
  from unknown pend props have c2:
    "reply (post_api_action env_github world_b (action_body ''deadbeef00000000'' ''approved'') store_one)
       = Sent 404 (Error ''Report not found!'')
     \<and> after (post_api_action env_github world_b (action_body ''deadbeef00000000'' ''approved'') store_one)
       = store_one"
    by simp
  from again pend props have c3:
    "reply (post_api_action env_github world_b (action_body ?id ''denied'') store_actioned)
       = Sent 404 (Error ''Report not found!'')
     \<and> after (post_api_action env_github world_b (action_body ?id ''denied'') store_actioned)
       = store_actioned"
    by simp
  from pend c1 c2 c3 show ?thesis by simp
qed

text \<open>
  Claim C1 as stated fails: the empty id is not the id of a pending report, and the
  reply is 400, not 404; and approving a pending id while the ban-list call never settles
  moves the report and sends no reply.
\<close>

theorem action_not_found_counterexample:
  "store_one = run env_github requests_one empty_store
   \<and> [] \<notin> set (pending_ids store_one)
   \<and> reply (post_api_action env_github world_b (action_body [] ''approved'') store_one)
       = Sent 400 (Error ''Invalid action or report ID!'')
   \<and> ''0b30557a9fc4e90e'' \<in> set (pending_ids store_one)
   \<and> post_api_action env_github (world_b\<lparr>gh := gh_hanging\<rparr>) (action_body ''0b30557a9fc4e90e'' ''approved'') store_one
       = \<lparr>reply = NoReply, after = store_actioned, fired = [(approved_text report_approved, [])],
          synced = [0],
          console = webhook_catch (JsError ''FetchError'' ''connect ECONNREFUSED'' (Some ''ECONNREFUSED''))\<rparr>"
  by code_simp

subsection \<open>C2: each report in exactly one collection\<close>

text \<open>
  Claim C2. In every store reached from the empty one by any sequence of submissions and
  actions, each report created is in exactly one of the two arrays, and there once;
  every actioned report has a status other than \<open>pending\<close> and its \<open>actionedAt\<close> set; and
  whatever requests follow, an actioned report stays in the actioned array, is never in
  the pending array again, and is never changed.
\<close>

theorem one_collection:
  assumes "s = run e qs empty_store"
  shows "(\<forall>r < length (heap s). (r \<in> set (reports s)) \<noteq> (r \<in> set (actionedReports s)))
       \<and> distinct (reports s) \<and> distinct (actionedReports s)
       \<and> (\<forall>r \<in> set (reports s) \<union> set (actionedReports s). r < length (heap s))
       \<and> (\<forall>r \<in> set (actionedReports s).
             status (heap s ! r) \<noteq> ''pending'' \<and> actionedAt (heap s ! r) \<noteq> None)
       \<and> (\<forall>qs'. \<forall>r \<in> set (actionedReports s).
             r \<in> set (actionedReports (run e qs' s)) \<and> r \<notin> set (reports (run e qs' s))
             \<and> heap (run e qs' s) ! r = heap s ! r)"
proof -
  have inv: "store_inv s" unfolding assms by (rule store_inv_run) (rule store_inv_empty)
  then have d: "distinct (reports s @ actionedReports s)"
    and all: "set (reports s) \<union> set (actionedReports s) = {..<length (heap s)}"
    and act: "\<forall>r \<in> set (actionedReports s).
                status (heap s ! r) \<in> {''approved'', ''denied''} \<and> actionedAt (heap s ! r) \<noteq> None"
    by (simp_all add: store_inv_def list_all_iff)
  have c1: "\<forall>r < length (heap s). (r \<in> set (reports s)) \<noteq> (r \<in> set (actionedReports s))"
    using d all by auto
  have c2: "distinct (reports s)" "distinct (actionedReports s)" using d by simp_all
  have c3: "\<forall>r \<in> set (reports s) \<union> set (actionedReports s). r < length (heap s)"
    using all by auto
  have c4: "\<forall>r \<in> set (actionedReports s).
             status (heap s ! r) \<noteq> ''pending'' \<and> actionedAt (heap s ! r) \<noteq> None"
    using act by auto
  have c5: "\<forall>qs'. \<forall>r \<in> set (actionedReports s).
             r \<in> set (actionedReports (run e qs' s)) \<and> r \<notin> set (reports (run e qs' s))
             \<and> heap (run e qs' s) ! r = heap s ! r"
  proof (intro allI ballI)
    fix qs' r
    assume r: "r \<in> set (actionedReports s)"
    from run_keeps_actioned[OF inv r, of e qs'] have
      k: "r \<in> set (actionedReports (run e qs' s))" "heap (run e qs' s) ! r = heap s ! r" by simp_all
    from store_inv_run[OF inv, of e qs'] have "distinct (reports (run e qs' s) @ actionedReports (run e qs' s))"
      by (simp add: store_inv_def)
    with k(1) have "r \<notin> set (reports (run e qs' s))" by auto
    with k show "r \<in> set (actionedReports (run e qs' s)) \<and> r \<notin> set (reports (run e qs' s))
             \<and> heap (run e qs' s) ! r = heap s ! r" by simp
  qed
  from c1 c2 c3 c4 c5 show ?thesis by (intro conjI)
qed

text \<open>The theorem at the store after one submission and its approval, followed by a denial
  of the same id, a second submission and its denial.\<close>

theorem one_collection_witness:
  "0 < length (heap store_actioned)
   \<and> (0 \<in> set (reports store_actioned)) \<noteq> (0 \<in> set (actionedReports store_actioned))
   \<and> 0 \<in> set (actionedReports store_actioned)
   \<and> status (heap store_actioned ! 0) = ''approved''
   \<and> actionedAt (heap store_actioned ! 0) = Some ''2025-01-01T00:05:00.000Z''
   \<and> 0 \<in> set (actionedReports (run env_github requests_again store_actioned))
   \<and> 0 \<notin> set (reports (run env_github requests_again store_actioned))
   \<and> heap (run env_github requests_again store_actioned) ! 0 = report_approved"
proof -
  have in0: "0 \<in> set (actionedReports store_actioned)" "0 < length (heap store_actioned)"
    "heap store_actioned ! 0 = report_approved"
    "status report_approved = ''approved''"
    "actionedAt report_approved = Some ''2025-01-01T00:05:00.000Z''"
    by (simp_all add: store_actioned_def report_approved_def)
  from one_collection[OF run_requests_two] in0 show ?thesis
    by (auto simp del: run.simps)
qed

subsection \<open>C3: which submissions are rejected with 400\<close>

text \<open>
  Claim C3, as amended. A submission is answered with 400 exactly when target or
  reporter is missing or null, or context is falsy, or no conversion of an identifier
  throws and an identifier converts to NaN or context is not a string. So, when
  neither conversion throws: exactly when target or reporter is missing or null, or
  context is missing or empty, or an identifier converts to NaN, or context is not a
  string. An identifier that converts to an infinity is not rejected. In every such case
  the store is unchanged and nothing is dispatched.
\<close>

theorem submit_validation:
  assumes out: "out = post_report e w req_ip b s"
    and t: "t = get_prop b ''target''" and r: "r = get_prop b ''reporter''" and c: "c = get_prop b ''context''"
  shows "((\<exists>x. reply out = Sent 400 x) \<longleftrightarrow>
            missing t \<or> missing r \<or> \<not> truthy c
            \<or> (\<not> coercion_throws t \<and> \<not> coercion_throws r
                \<and> (coerces_to_NaN t \<or> coerces_to_NaN r \<or> \<not> is_string c)))
       \<and> (\<not> coercion_throws t \<and> \<not> coercion_throws r \<longrightarrow>
            ((\<exists>x. reply out = Sent 400 x) \<longleftrightarrow>
               missing t \<or> missing r \<or> missing c \<or> c = JStr []
               \<or> coerces_to_NaN t \<or> coerces_to_NaN r \<or> \<not> is_string c))
       \<and> ((\<exists>x. reply out = Sent 400 x) \<longrightarrow> after out = s \<and> fired out = [] \<and> synced out = [])"
proof -
  let ?M = "missing t \<or> missing r \<or> \<not> truthy c"
  let ?V = "\<not> coercion_throws t \<and> \<not> coercion_throws r
                \<and> (coerces_to_NaN t \<or> coerces_to_NaN r \<or> \<not> is_string c)"
  have cases: "(?M \<and> out = unchanged s (Sent 400 (Error ''Missing required fields: target, reporter, context, reason'')))
     \<or> (\<not> ?M \<and> ?V \<and> out = unchanged s (Sent 400 (Error
          ''Invalid field types: target and reporter must be valid numbers, context must be string'')))
     \<or> (\<not> ?M \<and> \<not> ?V \<and> (\<forall>x. reply out \<noteq> Sent 400 x))"
  proof (cases ?M)
    case True
    with post_report_missing[of b e w req_ip s] show ?thesis by (simp add: out t r c)
  next
    case nm: False
    show ?thesis
    proof (cases "coercion_throws t \<or> coercion_throws r")
      case True
      with nm post_report_throws[of b e w req_ip s] obtain error where
        "out = unchanged s (Raised error)" by (auto simp: out t r c)
      with nm True show ?thesis by (auto simp: unchanged_def)
    next
      case nt: False
      then obtain tn rn where n: "as_number t = Inr tn" "as_number r = Inr rn"
        by (auto simp: coercion_throws_def split: sum.splits)
      show ?thesis
      proof (cases "tn = NaN \<or> rn = NaN \<or> \<not> is_string c")
        case True
        with nm n post_report_invalid[of b tn rn e w req_ip s] have
          "out = unchanged s (Sent 400 (Error
          ''Invalid field types: target and reporter must be valid numbers, context must be string''))"
          by (simp add: out t r c)
        moreover from True n nt have ?V by (auto simp: coerces_to_NaN_def)
        ultimately show ?thesis using nm by blast
      next
        case ok: False
        then obtain cs where cs: "c = JStr cs" by (cases c) auto
        with nm have ne: "cs \<noteq> []" by auto
        from ok n have nv: "\<not> ?V" by (auto simp: coerces_to_NaN_def)
        have "\<forall>x. reply out \<noteq> Sent 400 x"
        proof (cases "call_trim (get_prop b ''reason'')")
          case (Inl error)
          from post_report_reason[of b tn rn cs error e w req_ip s] nm n ok cs ne Inl
          have "out = unchanged s (Raised error)" by (simp add: out t r c)
          then show ?thesis by (simp add: unchanged_def)
        next
          case (Inr rs)
          then obtain rs' where "get_prop b ''reason'' = JStr rs'"
            by (cases "get_prop b ''reason''") (simp_all add: call_trim_def)
          from post_report_accepted[of b tn rn cs rs' e w req_ip s] nm n ok cs ne this
          show ?thesis by (simp add: out t r c)
        qed
        with nm nv show ?thesis by blast
      qed
    qed
  qed
  have p1: "(\<exists>x. reply out = Sent 400 x) \<longleftrightarrow> ?M \<or> ?V"
    using cases by (auto simp: unchanged_def)
  have p3: "(\<exists>x. reply out = Sent 400 x) \<longrightarrow> after out = s \<and> fired out = [] \<and> synced out = []"
    using cases by (auto simp: unchanged_def)
  have "\<not> truthy c \<longleftrightarrow> (c = JStr [] \<or> (\<not> is_string c \<and> \<not> truthy c))"
    by (rule falsy_not_nonempty_string)
  moreover have "missing c \<longrightarrow> \<not> truthy c \<and> \<not> is_string c" by (auto simp: missing_def)
  ultimately have p2: "\<not> coercion_throws t \<and> \<not> coercion_throws r \<longrightarrow>
            ((\<exists>x. reply out = Sent 400 x) \<longleftrightarrow>
               missing t \<or> missing r \<or> missing c \<or> c = JStr []
               \<or> coerces_to_NaN t \<or> coerces_to_NaN r \<or> \<not> is_string c)"
    unfolding p1 by blast
  from p1 p2 p3 show ?thesis by blast
qed

text \<open>The theorem at a submission without target, at one whose target is the text \<open>abc\<close>,
  and at an accepted one.\<close>

theorem submit_validation_witness:
  "missing (get_prop body_no_target ''target'')
   \<and> post_report env_default world_b ''198.51.100.4'' body_no_target store_one
       = unchanged store_one (Sent 400 (Error ''Missing required fields: target, reporter, context, reason''))
   \<and> coerces_to_NaN (get_prop body_not_a_number ''target'')
   \<and> reply (post_report env_default world_b ''198.51.100.4'' body_not_a_number store_one)
       = Sent 400 (Error ''Invalid field types: target and reporter must be valid numbers, context must be string'')
   \<and> after (post_report env_default world_b ''198.51.100.4'' body_not_a_number store_one) = store_one
   \<and> reply (post_report env_default world_b ''198.51.100.4'' body_spam store_one)
       = Sent 201 (Submitted ''Report c8cdd2d7dce1e6eb submitted successfully!'' ''c8cdd2d7dce1e6eb'')"
proof -
  have e1: "missing (get_prop body_no_target ''target'')"
    and e2: "post_report env_default world_b ''198.51.100.4'' body_no_target store_one
       = unchanged store_one (Sent 400 (Error ''Missing required fields: target, reporter, context, reason''))"
    and e3: "coerces_to_NaN (get_prop body_not_a_number ''target'')"
    and e4: "reply (post_report env_default world_b ''198.51.100.4'' body_not_a_number store_one)
       = Sent 400 (Error ''Invalid field types: target and reporter must be valid numbers, context must be string'')"
    and e5: "reply (post_report env_default world_b ''198.51.100.4'' body_spam store_one)
       = Sent 201 (Submitted ''Report c8cdd2d7dce1e6eb submitted successfully!'' ''c8cdd2d7dce1e6eb'')"
    by code_simp+
  from submit_validation[OF refl refl refl refl, of env_default world_b "''198.51.100.4''" body_not_a_number store_one]
    e4
  have "after (post_report env_default world_b ''198.51.100.4'' body_not_a_number store_one) = store_one"
    by simp
  with e1 e2 e3 e4 e5 show ?thesis by simp
qed

text \<open>
  Claim C3 as stated fails: the text \<open>Infinity\<close> converts to no finite number, and the
  submission is accepted with 201 and stored with an infinite target; and an object with
  an own key \<open>toString\<close> converts to no number at all, and the handler raises the
  TypeError of the conversion instead of answering 400.
\<close>

theorem submit_validation_counterexample:
  "as_number (get_prop body_infinity ''target'') = Inr PosInf
   \<and> reply (post_report env_default world_a ''203.0.113.9'' body_infinity empty_store)
       = Sent 201 (Submitted ''Report 0b30557a9fc4e90e submitted successfully!'' ''0b30557a9fc4e90e'')
   \<and> target (hd (heap (after (post_report env_default world_a ''203.0.113.9'' body_infinity empty_store)))) = PosInf
   \<and> as_number (get_prop body_object ''target'') = Inl (TypeError ''Cannot convert object to primitive value'')
   \<and> reply (post_report env_default world_a ''203.0.113.9'' body_object empty_store)
       = Raised (TypeError ''Cannot convert object to primitive value'')"
  by code_simp

subsection \<open>C4: an accepted submission\<close>

text \<open>
  Claim C4 asks that every submission that passes validation be answered with 201 and
  appended to the pending array. The handler does not do that for a submission without
  reason. Its first check answers a submission without target with 400 and a message
  that names reason among the required fields, but neither check looks at reason: with
  target 42, reporter 7 and context \<open>spam\<close> both checks pass, \<open>reason.trim()\<close> is called on
  undefined, and the handler raises a TypeError; no report is appended and no response
  with 201 is sent.
\<close>

theorem submit_without_reason:
  "reply (post_report env_default world_a ''203.0.113.9'' body_no_target empty_store)
       = Sent 400 (Error ''Missing required fields: target, reporter, context, reason'')
   \<and> get_prop body_no_reason ''reason'' = JUndefined
   \<and> \<not> missing (get_prop body_no_reason ''target'') \<and> \<not> missing (get_prop body_no_reason ''reporter'')
   \<and> as_number (get_prop body_no_reason ''target'') = Inr (Fin 42)
   \<and> as_number (get_prop body_no_reason ''reporter'') = Inr (Fin 7)
   \<and> get_prop body_no_reason ''context'' = JStr ''spam''
   \<and> post_report env_default world_a ''203.0.113.9'' body_no_reason empty_store
       = unchanged empty_store (Raised (TypeError ''Cannot read properties of undefined''))
   \<and> reports (after (post_report env_default world_a ''203.0.113.9'' body_no_reason empty_store)) = []"
  by code_simp

text \<open>
  Where the reason is a string, the handler does what is asked. In every store reached
  from the empty one, a submission that passes validation and whose reason is a string is
  answered with 201 and an id of exactly 16 lowercase hexadecimal characters, and appends
  exactly one new report, with status \<open>pending\<close>, the converted target and reporter
  (neither is NaN) and the trimmed context and reason, at the end of the pending array;
  the list of reports that a reader gets is the former list with the new report at its
  end.
\<close>

theorem submit_accepted:
  assumes s: "s = run e qs empty_store"
    and v: "\<not> missing (get_prop b ''target'')" "\<not> missing (get_prop b ''reporter'')"
      "as_number (get_prop b ''target'') = Inr tn" "as_number (get_prop b ''reporter'') = Inr rn"
      "tn \<noteq> NaN" "rn \<noteq> NaN" "get_prop b ''context'' = JStr c" "c \<noteq> []"
      "get_prop b ''reason'' = JStr rs"
    and out: "out = post_report e w req_ip b s"
    and rid: "rid = generateReportId (entropy w)"
    and new: "new = \<lparr>id' = rid, target = tn, reporter = rn, context' = trim c, reason = trim rs,
                     timestamp = now w, ip = req_ip, status = ''pending'', actionedAt = None\<rparr>"
  shows "reply out = Sent 201 (Submitted (''Report '' @ rid @ '' submitted successfully!'') rid)
       \<and> length rid = 16 \<and> set rid \<subseteq> set ''0123456789abcdef''
       \<and> heap (after out) = heap s @ [new]
       \<and> reports (after out) = reports s @ [length (heap s)]
       \<and> actionedReports (after out) = actionedReports s
       \<and> fst (get_api_reports (after out)) = fst (get_api_reports s) @ [new]
       \<and> snd (get_api_reports (after out)) = snd (get_api_reports s)"
proof -
  have inv: "store_inv s" unfolding s by (rule store_inv_run) (rule store_inv_empty)
  then have lt: "\<forall>r \<in> set (reports s) \<union> set (actionedReports s). r < length (heap s)"
    by (simp add: store_inv_def)
  have nr: "new = new_report w req_ip tn rn c rs" by (simp add: new rid new_report_def)
  note acc = post_report_accepted[OF v, of e w req_ip s, folded nr out]
  have c1: "reply out = Sent 201 (Submitted (''Report '' @ rid @ '' submitted successfully!'') rid)"
    by (simp add: acc rid)
  have c2: "length rid = 16" by (simp add: rid length_generateReportId)
  have c3: "set rid \<subseteq> set ''0123456789abcdef''"
    using set_toString_hex[of "randomBytes (entropy w) 8"]
    by (simp only: rid generateReportId_def hex_chars_def)
  have c4: "heap (after out) = heap s @ [new]" "reports (after out) = reports s @ [length (heap s)]"
    "actionedReports (after out) = actionedReports s"
    by (simp_all add: acc)
  have c5: "fst (get_api_reports (after out)) = fst (get_api_reports s) @ [new]"
    using lt by (simp add: get_api_reports_def c4 nth_append)
  have c6: "snd (get_api_reports (after out)) = snd (get_api_reports s)"
    using lt by (simp add: get_api_reports_def c4 nth_append)
  from c1 c2 c3 c4 c5 c6 show ?thesis by (intro conjI)
qed

text \<open>The theorem at a second submission, to the store that holds one pending report.\<close>

theorem submit_accepted_witness:
  "reply (post_report env_github world_b ''198.51.100.4'' body_spam store_one)
       = Sent 201 (Submitted ''Report c8cdd2d7dce1e6eb submitted successfully!'' ''c8cdd2d7dce1e6eb'')
   \<and> length ''c8cdd2d7dce1e6eb'' = 16
   \<and> get_api_reports (after (post_report env_github world_b ''198.51.100.4'' body_spam store_one))
       = ([report_spam, report_second], [])"
proof -
  have h: "\<not> missing (get_prop body_spam ''target'')" "\<not> missing (get_prop body_spam ''reporter'')"
      "as_number (get_prop body_spam ''target'') = Inr (Fin 42)"
      "as_number (get_prop body_spam ''reporter'') = Inr (Fin 7)"
      "Fin 42 \<noteq> NaN" "Fin 7 \<noteq> NaN" "get_prop body_spam ''context'' = JStr ''spam''" "''spam'' \<noteq> []"
      "get_prop body_spam ''reason'' = JStr ''scamming''"
    by code_simp+
  have g: "generateReportId (entropy world_b) = ''c8cdd2d7dce1e6eb''" by code_simp
  have n: "report_second = \<lparr>id' = ''c8cdd2d7dce1e6eb'', target = Fin 42, reporter = Fin 7,
      context' = trim ''spam'', reason = trim ''scamming'', timestamp = now world_b,
      ip = ''198.51.100.4'', status = ''pending'', actionedAt = None\<rparr>"
    by code_simp
  have a: "get_api_reports store_one = ([report_spam], [])" by code_simp
  from submit_accepted[OF run_requests_one h refl g[symmetric] n] a
  show ?thesis by (simp add: prod_eq_iff)
qed

subsection \<open>C5: the ban list is synchronized on approval only\<close>



subsection \<open>C6: failures of the background work\<close>

text \<open>
  Claim C6. Neither \<open>FireWebhook\<close> nor \<open>addToGitHubBanList\<close> ever rejects: a failed import
  or fetch and an error status of the webhook are logged and the call is fulfilled, and
  so is the ban-list call whenever the calls to the external store settle, whatever
  fails in it. The reply to a submission and the store it leaves are the same whatever
  the network and the external store do; so is the store an action leaves, and so is its
  reply for any two external stores whose calls settle.
\<close>

theorem background_failures_swallowed:
  "snd (FireWebhook nw c u) \<noteq> Rejected err
   \<and> snd (addToGitHubBanList e g r) \<noteq> Rejected err
   \<and> (import_node_fetch nw = Rejected er \<or> (import_node_fetch nw = Fulfilled () \<and> fetch nw u c = Rejected er)
        \<longrightarrow> FireWebhook nw c u = (webhook_catch er, Fulfilled ()))
   \<and> (import_node_fetch nw = Fulfilled () \<and> fetch nw u c = Fulfilled resp \<and> \<not> ok resp
        \<and> response_text resp = Fulfilled errorText
        \<longrightarrow> FireWebhook nw c u = ([[S ''[WEBHOOK] Discord API returned error:''],
                                   [S ''[WEBHOOK] Error response:'', S errorText]], Fulfilled ()))
   \<and> (github_settles g \<longrightarrow> snd (addToGitHubBanList e g r) = Fulfilled ())
   \<and> reply (post_report e (w\<lparr>net := nw, gh := g\<rparr>) req_ip b s) = reply (post_report e w req_ip b s)
   \<and> after (post_report e (w\<lparr>net := nw, gh := g\<rparr>) req_ip b s) = after (post_report e w req_ip b s)
   \<and> after (post_api_action e (w\<lparr>net := nw, gh := g\<rparr>) ab s) = after (post_api_action e w ab s)
   \<and> (github_settles g \<and> github_settles (gh w) \<longrightarrow>
        reply (post_api_action e (w\<lparr>net := nw, gh := g\<rparr>) ab s) = reply (post_api_action e w ab s))"
proof -
  have f1: "import_node_fetch nw = Rejected er \<or> (import_node_fetch nw = Fulfilled () \<and> fetch nw u c = Rejected er)
        \<longrightarrow> FireWebhook nw c u = (webhook_catch er, Fulfilled ())"
    by (auto simp: FireWebhook_def)
  have f2: "import_node_fetch nw = Fulfilled () \<and> fetch nw u c = Fulfilled resp \<and> \<not> ok resp
        \<and> response_text resp = Fulfilled errorText
        \<longrightarrow> FireWebhook nw c u = ([[S ''[WEBHOOK] Discord API returned error:''],
                                   [S ''[WEBHOOK] Error response:'', S errorText]], Fulfilled ())"
    by (simp add: FireWebhook_def)
  have g1: "github_settles g \<longrightarrow> snd (addToGitHubBanList e g r) = Fulfilled ()"
    by (simp add: addToGitHubBanList_settles)
  note a = FireWebhook_never_rejects[of nw c u err] addToGitHubBanList_never_rejects[of e g r err]
  note p = post_report_world[where e=e and w=w and nw=nw and g=g and req_ip=req_ip and b=b and s=s]
  note q = post_api_action_tasks[where e=e and w=w and nw=nw and g=g and b=ab and s=s]
  from a f1 f2 g1 p q show ?thesis by (intro conjI) simp_all
qed

text \<open>The theorem at a refused connection, at a webhook that answers with an error status,
  and at an external store that is absent on reading and rejects the commit.\<close>

theorem background_failures_swallowed_witness:
  "FireWebhook net_refused (new_report_text env_github 1) (REPORTS_WEBHOOK env_github)
      = (webhook_catch (JsError ''FetchError'' ''connect ECONNREFUSED'' (Some ''ECONNREFUSED'')), Fulfilled ())
   \<and> FireWebhook net_rate_limited (new_report_text env_github 1) (REPORTS_WEBHOOK env_github)
      = ([[S ''[WEBHOOK] Discord API returned error:''], [S ''[WEBHOOK] Error response:'', S ''rate limited'']],
         Fulfilled ())
   \<and> github_settles gh_conflict
   \<and> addToGitHubBanList env_github gh_conflict report_approved
      = ([[S ''File not found, creating...''],
          [S ''GitHub integration error:'', E (JsError ''HttpError'' ''sha does not match'' None)]],
         Fulfilled ())
   \<and> reply (post_report env_github (world_a\<lparr>net := net_rate_limited, gh := gh_conflict\<rparr>) ''203.0.113.9''
        body_spam empty_store)
      = reply (post_report env_github world_a ''203.0.113.9'' body_spam empty_store)
   \<and> reply (post_api_action env_github (world_b\<lparr>net := net_rate_limited, gh := gh_conflict\<rparr>)
        (action_body ''0b30557a9fc4e90e'' ''approved'') store_one)
      = Sent 200 (Actioned ''Report approved successfull!'')
   \<and> after (post_api_action env_github (world_b\<lparr>net := net_rate_limited, gh := gh_conflict\<rparr>)
        (action_body ''0b30557a9fc4e90e'' ''approved'') store_one)
      = store_actioned"
proof -
  have s: "github_settles gh_conflict" "github_settles gh_absent" "gh world_b = gh_absent"
    by (simp_all add: github_settles_def gh_conflict_def gh_absent_def world_b_def)
  have i: "import_node_fetch net_refused = Fulfilled ()"
    "fetch net_refused (REPORTS_WEBHOOK env_github) (new_report_text env_github 1)
       = Rejected (JsError ''FetchError'' ''connect ECONNREFUSED'' (Some ''ECONNREFUSED''))"
    "import_node_fetch net_rate_limited = Fulfilled ()"
    "fetch net_rate_limited (REPORTS_WEBHOOK env_github) (new_report_text env_github 1)
       = Fulfilled \<lparr>ok = False, response_text = Fulfilled ''rate limited''\<rparr>"
    by (simp_all add: net_refused_def net_rate_limited_def)
  have e: "addToGitHubBanList env_github gh_conflict report_approved
      = ([[S ''File not found, creating...''],
          [S ''GitHub integration error:'', E (JsError ''HttpError'' ''sha does not match'' None)]],
         Fulfilled ())"
    "reply (post_api_action env_github world_b (action_body ''0b30557a9fc4e90e'' ''approved'') store_one)
      = Sent 200 (Actioned ''Report approved successfull!'')"
    "after (post_api_action env_github world_b (action_body ''0b30557a9fc4e90e'' ''approved'') store_one)
      = store_actioned"
    by code_simp+
  note t1 = background_failures_swallowed[where nw=net_refused and c="new_report_text env_github 1"
      and u="REPORTS_WEBHOOK env_github" and e=env_github and g=gh_conflict and r=report_approved
      and er="JsError ''FetchError'' ''connect ECONNREFUSED'' (Some ''ECONNREFUSED'')"
      and w=world_a and req_ip="''203.0.113.9''" and b=body_spam and s=empty_store
      and ab="action_body ''0b30557a9fc4e90e'' ''approved''"]
  note t2 = background_failures_swallowed[where nw=net_rate_limited and c="new_report_text env_github 1"
      and u="REPORTS_WEBHOOK env_github" and e=env_github and g=gh_conflict and r=report_approved
      and resp="\<lparr>ok = False, response_text = Fulfilled ''rate limited''\<rparr>" and errorText="''rate limited''"
      and w=world_b and req_ip="''203.0.113.9''" and b=body_spam and s=store_one
      and ab="action_body ''0b30557a9fc4e90e'' ''approved''"]
  from t1 i have c1: "FireWebhook net_refused (new_report_text env_github 1) (REPORTS_WEBHOOK env_github)
      = (webhook_catch (JsError ''FetchError'' ''connect ECONNREFUSED'' (Some ''ECONNREFUSED'')), Fulfilled ())"
    by simp
  from t2 i have c2: "FireWebhook net_rate_limited (new_report_text env_github 1) (REPORTS_WEBHOOK env_github)
      = ([[S ''[WEBHOOK] Discord API returned error:''], [S ''[WEBHOOK] Error response:'', S ''rate limited'']],
         Fulfilled ())"
    by simp
  from t2 s e have c4: "reply (post_api_action env_github (world_b\<lparr>net := net_rate_limited, gh := gh_conflict\<rparr>)
        (action_body ''0b30557a9fc4e90e'' ''approved'') store_one)
      = Sent 200 (Actioned ''Report approved successfull!'')"
    "after (post_api_action env_github (world_b\<lparr>net := net_rate_limited, gh := gh_conflict\<rparr>)
        (action_body ''0b30557a9fc4e90e'' ''approved'') store_one)
      = store_actioned"
    by simp_all
  have c5: "reply (post_report env_github (world_a\<lparr>net := net_rate_limited, gh := gh_conflict\<rparr>) ''203.0.113.9''
        body_spam empty_store)
      = reply (post_report env_github world_a ''203.0.113.9'' body_spam empty_store)"
    using background_failures_swallowed[where nw=net_rate_limited and e=env_github and g=gh_conflict
       and w=world_a and req_ip="''203.0.113.9''" and b=body_spam and s=empty_store] by simp
  from c1 c2 s(1) e(1) c5 c4 show ?thesis by (intro conjI)
qed

subsection \<open>C7: what the reply to an action waits for\<close>

text \<open>
  Claim C7, as amended. For an action on a pending report, the notification is fired and
  not awaited: the reply is the same whatever the network does, also when it never
  answers. A denial awaits nothing: the reply is the success response whatever the
  external store does. An approval awaits \<open>addToGitHubBanList\<close>: the success response is
  sent exactly when that call settles, and there is no reply while it does not.
\<close>

theorem action_reply_awaits_sync_only:
  assumes found: "truthy (get_prop b ''reportId'')"
      "findIndex (\<lambda>r. JStr (id' (heap s ! r)) = get_prop b ''reportId'') (reports s) = Some i"
    and out: "out = post_api_action e w b s"
  shows "(get_prop b ''action'' = JStr ''denied'' \<longrightarrow>
            reply out = Sent 200 (Actioned ''Report denied successfull!'')
          \<and> reply (post_api_action e (w\<lparr>net := nw, gh := g\<rparr>) b s) = reply out
          \<and> synced out = [] \<and> length (fired out) = 1)
       \<and> (get_prop b ''action'' = JStr ''approved'' \<longrightarrow>
            reply (post_api_action e (w\<lparr>net := nw\<rparr>) b s) = reply out
          \<and> synced out = [reports s ! i] \<and> length (fired out) = 1
          \<and> (reply out = NoReply \<longleftrightarrow>
                snd (addToGitHubBanList e (gh w) (heap (after out) ! (reports s ! i))) = Unsettled)
          \<and> (reply out = Sent 200 (Actioned ''Report approved successfull!'') \<longleftrightarrow>
                snd (addToGitHubBanList e (gh w) (heap (after out) ! (reports s ! i))) \<noteq> Unsettled))"
proof (intro conjI impI)
  assume a: "get_prop b ''action'' = JStr ''denied''"
  note o = post_api_action_denied[OF found(1) a found(2)]
  show "reply out = Sent 200 (Actioned ''Report denied successfull!'')"
    and "reply (post_api_action e (w\<lparr>net := nw, gh := g\<rparr>) b s) = reply out"
    and "synced out = []" and "length (fired out) = 1"
    by (simp_all add: out o)
next
  assume a: "get_prop b ''action'' = JStr ''approved''"
  note o = post_api_action_approved[OF found(1) a found(2)]
  let ?p = "snd (addToGitHubBanList e (gh w) (heap (after out) ! (reports s ! i)))"
  have nr: "?p \<noteq> Rejected err" for err by (rule addToGitHubBanList_never_rejects)
  show "reply (post_api_action e (w\<lparr>net := nw\<rparr>) b s) = reply out"
    and "synced out = [reports s ! i]" and "length (fired out) = 1"
    by (simp_all add: out o)
  have r: "reply out = (case ?p of Fulfilled u \<Rightarrow> Sent 200 (Actioned ''Report approved successfull!'')
               | Rejected error \<Rightarrow> Raised error | Unsettled \<Rightarrow> NoReply)"
    by (simp add: out o)
  have r2: "reply out = (if ?p = Unsettled then NoReply
                         else Sent 200 (Actioned ''Report approved successfull!''))"
  proof (cases ?p)
    case (Fulfilled u)
    with r show ?thesis by simp
  next
    case (Rejected x)
    with nr[of x] show ?thesis by simp
  next
    case Unsettled
    with r show ?thesis by simp
  qed
  show "reply out = NoReply \<longleftrightarrow> ?p = Unsettled"
    by (simp add: r2)
  show "reply out = Sent 200 (Actioned ''Report approved successfull!'') \<longleftrightarrow> ?p \<noteq> Unsettled"
    by (simp add: r2)
qed

text \<open>The theorem at a denial with a network and an external store that never answer, and
  at an approval with a network that never answers.\<close>

theorem action_reply_awaits_sync_only_witness:
  "reply (post_api_action env_github (world_b\<lparr>net := net_hanging, gh := gh_hanging\<rparr>)
      (action_body ''0b30557a9fc4e90e'' ''denied'') store_one)
     = Sent 200 (Actioned ''Report denied successfull!'')
   \<and> reply (post_api_action env_github (world_b\<lparr>net := net_hanging\<rparr>)
      (action_body ''0b30557a9fc4e90e'' ''approved'') store_one)
     = Sent 200 (Actioned ''Report approved successfull!'')
   \<and> synced (post_api_action env_github world_b (action_body ''0b30557a9fc4e90e'' ''approved'') store_one) = [0]"
proof -
  have f: "truthy (get_prop (action_body ''0b30557a9fc4e90e'' a) ''reportId'')"
    "findIndex (\<lambda>r. JStr (id' (heap store_one ! r)) = get_prop (action_body ''0b30557a9fc4e90e'' a) ''reportId'')
       (reports store_one) = Some 0"
    "get_prop (action_body ''0b30557a9fc4e90e'' a) ''action'' = JStr a" for a
    by (simp_all add: action_body_def get_prop_def store_one_def report_spam_def)
  have r: "reply (post_api_action env_github world_b (action_body ''0b30557a9fc4e90e'' ''approved'') store_one)
     = Sent 200 (Actioned ''Report approved successfull!'')"
    "reports store_one ! 0 = 0"
    by code_simp+
  from action_reply_awaits_sync_only[OF f(1)[of "''denied''"] f(2)[of "''denied''"] refl,
      where e=env_github and w=world_b and nw=net_hanging and g=gh_hanging]
    action_reply_awaits_sync_only[OF f(1)[of "''approved''"] f(2)[of "''approved''"] refl,
      where e=env_github and w=world_b and nw=net_hanging and g=gh_hanging]
    f(3) r
  show ?thesis by simp
qed

text \<open>
  Claim C7 as stated fails: with an external store that answers, the approval is
  answered with success; with one whose \<open>getContent\<close> never settles, the same approval
  moves the report and gets no reply. The reply waits for the ban-list call.
\<close>

theorem action_reply_awaits_sync_counterexample:
  "reply (post_api_action env_github world_b (action_body ''0b30557a9fc4e90e'' ''approved'') store_one)
     = Sent 200 (Actioned ''Report approved successfull!'')
   \<and> snd (addToGitHubBanList env_github gh_hanging report_approved) = Unsettled
   \<and> reply (post_api_action env_github (world_b\<lparr>gh := gh_hanging\<rparr>)
        (action_body ''0b30557a9fc4e90e'' ''approved'') store_one) = NoReply
   \<and> after (post_api_action env_github (world_b\<lparr>gh := gh_hanging\<rparr>)
        (action_body ''0b30557a9fc4e90e'' ''approved'') store_one) = store_actioned"
  by code_simp

subsection \<open>C8: the credential validator\<close>

text \<open>
  Claim C8. \<open>ValidatePassword\<close> returns true exactly when the candidate matches at least
  one configured hash under \<open>bcrypt.compare\<close> (a comparison that throws is no match); when
  the configuration is absent, or holds no non-empty hash after splitting and trimming,
  it returns false and has compared with nothing. It compares with configured hashes
  only.
\<close>

theorem validate_password:
  "(fst (ValidatePassword e bcrypt_compare password)
      \<longleftrightarrow> (\<exists>h \<in> set (configured_hashes e). bcrypt_compare password h = Inr True))
   \<and> (configured_hashes e = [] \<longrightarrow> ValidatePassword e bcrypt_compare password = (False, []))
   \<and> set (snd (ValidatePassword e bcrypt_compare password)) \<subseteq> set (configured_hashes e)"
proof (cases "env_LOGIN_HASHES e")
  case None
  then show ?thesis by (simp add: ValidatePassword_def configured_hashes_def)
next
  case (Some l)
  show ?thesis
  proof (cases "l = []")
    case True
    with Some show ?thesis
      by (simp add: ValidatePassword_def configured_hashes_def trim_def)
  next
    case False
    let ?hs = "filter (\<lambda>h. h \<noteq> []) (map trim (split (CHR '';'') l))"
    have c: "configured_hashes e = ?hs" by (simp add: configured_hashes_def Some)
    have v: "ValidatePassword e bcrypt_compare password =
        (if ?hs = [] then (False, []) else compare_each (bcrypt_compare password) ?hs)"
      using Some False by (simp add: ValidatePassword_def Let_def)
    show ?thesis
    proof (cases "?hs = []")
      case True
      with v c show ?thesis by simp
    next
      case ne: False
      with v have "ValidatePassword e bcrypt_compare password = compare_each (bcrypt_compare password) ?hs"
        by simp
      with c ne compare_each_fst[of "bcrypt_compare password" ?hs]
        compare_each_snd[of "bcrypt_compare password" ?hs]
      show ?thesis by simp
    qed
  qed
qed

text \<open>The theorem with two configured hashes, with none configured, and with a
  configuration of separators and blanks only.\<close>

theorem validate_password_witness:
  "configured_hashes env_github = [''$2b$12$aaaa'', ''$2b$12$bbbb'']
   \<and> bcrypt_sample ''hunter2'' ''$2b$12$bbbb'' = Inr True
   \<and> ValidatePassword env_github bcrypt_sample ''hunter2'' = (True, [''$2b$12$aaaa'', ''$2b$12$bbbb''])
   \<and> ValidatePassword env_github bcrypt_sample ''letmein'' = (False, [''$2b$12$aaaa'', ''$2b$12$bbbb''])
   \<and> configured_hashes env_default = []
   \<and> ValidatePassword env_default bcrypt_sample ''hunter2'' = (False, [])
   \<and> configured_hashes (env_default\<lparr>env_LOGIN_HASHES := Some '' ; ;''\<rparr>) = []
   \<and> ValidatePassword (env_default\<lparr>env_LOGIN_HASHES := Some '' ; ;''\<rparr>) bcrypt_sample ''hunter2'' = (False, [])"
proof -
  have c: "configured_hashes env_github = [''$2b$12$aaaa'', ''$2b$12$bbbb'']"
    "configured_hashes env_default = []"
    "configured_hashes (env_default\<lparr>env_LOGIN_HASHES := Some '' ; ;''\<rparr>) = []"
    "bcrypt_sample ''hunter2'' ''$2b$12$bbbb'' = Inr True"
    by code_simp+
  have v: "ValidatePassword env_github bcrypt_sample ''hunter2'' = (True, [''$2b$12$aaaa'', ''$2b$12$bbbb''])"
    "ValidatePassword env_github bcrypt_sample ''letmein'' = (False, [''$2b$12$aaaa'', ''$2b$12$bbbb''])"
    by code_simp+
  from validate_password[of env_default bcrypt_sample "''hunter2''"]
    validate_password[of "env_default\<lparr>env_LOGIN_HASHES := Some '' ; ;''\<rparr>" bcrypt_sample "''hunter2''"]
    c v show ?thesis by simp
qed

subsection \<open>C9: the notification text of an action\<close>

text \<open>
  Claim C9 asks that the text fired for an approval differ from the text fired for a
  denial. The handler does not do that: for the same store and the same report id, the
  approval and the denial fire the same content to the same URL, the one that starts
  with \<open>**Approved**\<close>.
\<close>

theorem action_text_same:
  "fired (post_api_action e w [(''reportId'', rid), (''action'', JStr ''approved'')] s)
     = fired (post_api_action e w [(''reportId'', rid), (''action'', JStr ''denied'')] s)"
proof -
  let ?a = "[(''reportId'', rid), (''action'', JStr ''approved'')]"
  let ?d = "[(''reportId'', rid), (''action'', JStr ''denied'')]"
  have p: "get_prop ?a ''reportId'' = rid" "get_prop ?d ''reportId'' = rid"
    "get_prop ?a ''action'' = JStr ''approved''" "get_prop ?d ''action'' = JStr ''denied''"
    by (simp_all add: get_prop_def)
  show ?thesis
  proof (cases "truthy rid")
    case False
    then show ?thesis
      by (simp add: post_api_action_invalid p)
  next
    case tr: True
    show ?thesis
    proof (cases "findIndex (\<lambda>r. JStr (id' (heap s ! r)) = rid) (reports s)")
      case None
      from tr None have "post_api_action e w ?a s = unchanged s (Sent 404 (Error ''Report not found!''))"
        by (intro post_api_action_not_found[where a="''approved''"]) (simp_all add: p)
      moreover from tr None have "post_api_action e w ?d s = unchanged s (Sent 404 (Error ''Report not found!''))"
        by (intro post_api_action_not_found[where a="''denied''"]) (simp_all add: p)
      ultimately show ?thesis by simp
    next
      case (Some i)
      from tr Some have a: "fired (post_api_action e w ?a s)
          = [(approved_text (heap (moved s i ''approved'' (now w)) ! (reports s ! i)), ACTIONS_WEBHOOK e)]"
        by (subst post_api_action_approved[where i=i]) (simp_all add: p)
      from tr Some have d: "fired (post_api_action e w ?d s)
          = [(else_text (heap (moved s i ''denied'' (now w)) ! (reports s ! i)), ACTIONS_WEBHOOK e)]"
        by (subst post_api_action_denied[where i=i]) (simp_all add: p)
      show ?thesis unfolding a d text_ignores_status(3) moved_text ..
    qed
  qed
qed

text \<open>The theorem at the one pending report: the denial sets the status \<open>denied\<close> and fires
  the text of an approval.\<close>

theorem action_text_same_witness:
  "fired (post_api_action env_github world_b (action_body ''0b30557a9fc4e90e'' ''approved'') store_one)
     = [(approved_text report_spam, [])]
   \<and> fired (post_api_action env_github world_b (action_body ''0b30557a9fc4e90e'' ''denied'') store_one)
     = [(approved_text report_spam, [])]
   \<and> take 12 (case hd (approved_text report_spam) of Lit x \<Rightarrow> x | Val v \<Rightarrow> []) = ''**Approved**''
   \<and> status (heap (after (post_api_action env_github world_b
        (action_body ''0b30557a9fc4e90e'' ''denied'') store_one)) ! 0) = ''denied''"
proof -
  have a: "fired (post_api_action env_github world_b (action_body ''0b30557a9fc4e90e'' ''approved'') store_one)
     = [(approved_text report_spam, [])]"
    and t: "take 12 (case hd (approved_text report_spam) of Lit x \<Rightarrow> x | Val v \<Rightarrow> []) = ''**Approved**''"
    and st: "status (heap (after (post_api_action env_github world_b
        (action_body ''0b30557a9fc4e90e'' ''denied'') store_one)) ! 0) = ''denied''"
    by code_simp+
  from action_text_same[of env_github world_b "JStr ''0b30557a9fc4e90e''" store_one] a
  have "fired (post_api_action env_github world_b (action_body ''0b30557a9fc4e90e'' ''denied'') store_one)
     = [(approved_text report_spam, [])]"
    by (simp add: action_body_def)
  with a t st show ?thesis by (intro conjI)
qed

subsection \<open>C10: a reason that is no string\<close>

text \<open>
  Claim C10. A submission whose target, reporter and context pass validation and whose
  reason is absent or not a string is answered neither with 201 nor with 400: the handler
  raises the TypeError of \<open>reason.trim()\<close>, the store is unchanged and no notification
  is fired.
\<close>

theorem submit_reason_raises:
  assumes v: "\<not> missing (get_prop b ''target'')" "\<not> missing (get_prop b ''reporter'')"
      "as_number (get_prop b ''target'') = Inr tn" "as_number (get_prop b ''reporter'') = Inr rn"
      "tn \<noteq> NaN" "rn \<noteq> NaN" "get_prop b ''context'' = JStr c" "c \<noteq> []"
    and nostr: "\<not> is_string (get_prop b ''reason'')"
    and out: "out = post_report e w req_ip b s"
  shows "(\<exists>error. call_trim (get_prop b ''reason'') = Inl error \<and> reply out = Raised error)
       \<and> (\<forall>n x. reply out \<noteq> Sent n x)
       \<and> after out = s \<and> fired out = [] \<and> synced out = [] \<and> console out = []"
proof -
  from call_trim_not_string[OF nostr] obtain error where
    error: "call_trim (get_prop b ''reason'') = Inl error" by blast
  from post_report_reason[OF v error, of e w req_ip s] have o: "out = unchanged s (Raised error)"
    by (simp add: out)
  with error show ?thesis by (simp add: unchanged_def)
qed

text \<open>The theorem at a submission without reason and at one whose reason is the number 5.\<close>

theorem submit_reason_raises_witness:
  "\<not> is_string (get_prop body_no_reason ''reason'')
   \<and> reply (post_report env_default world_b ''198.51.100.4'' body_no_reason store_one)
       = Raised (TypeError ''Cannot read properties of undefined'')
   \<and> after (post_report env_default world_b ''198.51.100.4'' body_no_reason store_one) = store_one
   \<and> fired (post_report env_default world_b ''198.51.100.4'' body_no_reason store_one) = []
   \<and> \<not> is_string (get_prop body_numeric_reason ''reason'')
   \<and> reply (post_report env_default world_b ''198.51.100.4'' body_numeric_reason store_one)
       = Raised (TypeError ''reason.trim is not a function'')
   \<and> after (post_report env_default world_b ''198.51.100.4'' body_numeric_reason store_one) = store_one
   \<and> fired (post_report env_default world_b ''198.51.100.4'' body_numeric_reason store_one) = []"
proof -
  have h1: "\<not> missing (get_prop body_no_reason ''target'')" "\<not> missing (get_prop body_no_reason ''reporter'')"
      "as_number (get_prop body_no_reason ''target'') = Inr (Fin 42)"
      "as_number (get_prop body_no_reason ''reporter'') = Inr (Fin 7)"
      "Fin 42 \<noteq> NaN" "Fin 7 \<noteq> NaN" "get_prop body_no_reason ''context'' = JStr ''spam''" "''spam'' \<noteq> []"
      "\<not> is_string (get_prop body_no_reason ''reason'')"
    by code_simp+
  have h2: "\<not> missing (get_prop body_numeric_reason ''target'')" "\<not> missing (get_prop body_numeric_reason ''reporter'')"
      "as_number (get_prop body_numeric_reason ''target'') = Inr (Fin 42)"
      "as_number (get_prop body_numeric_reason ''reporter'') = Inr (Fin 7)"
      "Fin 42 \<noteq> NaN" "Fin 7 \<noteq> NaN" "get_prop body_numeric_reason ''context'' = JStr '' spam ''" "'' spam '' \<noteq> []"
      "\<not> is_string (get_prop body_numeric_reason ''reason'')"
    by code_simp+
  have t: "call_trim (get_prop body_no_reason ''reason'') = Inl (TypeError ''Cannot read properties of undefined'')"
    "call_trim (get_prop body_numeric_reason ''reason'') = Inl (TypeError ''reason.trim is not a function'')"
    by code_simp+
  from submit_reason_raises[OF h1 refl, of env_default world_b "''198.51.100.4''" store_one]
       submit_reason_raises[OF h2 refl, of env_default world_b "''198.51.100.4''" store_one] t h1(9) h2(9)
  show ?thesis by simp
qed

end
